theory Spec2Isabelle
  imports Main "HOL-Library.Word" "HOL-Library.Signed_Division"
begin

section \<open>TenXClusterAligner: the three-stage cluster orchestrator\<close>

text \<open>
  A shallow embedding of \<^verbatim>\<open>TenXClusterAligner::align_first_stage\<close>,
  \<^verbatim>\<open>align_second_stage\<close>, \<^verbatim>\<open>align_third_stage\<close> and \<^verbatim>\<open>align\<close>
  (TenXClusterAligner.cpp).  The per-pair paired-end engine and the single-end engine are
  external to that file: they are parameters of the model (record \<open>Engines\<close>), and
  every call the orchestrator makes to them is appended to a trace.
\<close>

subsection \<open>Data model\<close>

type_synonym int64 = "64 word"
type_synonym GenomeLocation = "64 word"

text \<open>Modelled from the spec: the result status of a mate (header not in the source
  tree); the orchestrator only compares a status with \<open>NotFound\<close>.\<close>
datatype AlignmentResult = NotFound | Found

text \<open>Modelled from the spec: strand/direction of an alignment (directions.h is not in
  the source tree); the orchestrator only writes \<open>FORWARD\<close>.\<close>
datatype Direction = FORWARD | RC

text \<open>Modelled from the spec: a read is an immutable sequence with a length.\<close>
record Read =
  data :: string
  dataLength :: nat

definition getDataLength :: "Read \<Rightarrow> nat" where
  "getDataLength r = dataLength r"

text \<open>Arrays indexed by \<^verbatim>\<open>whichRead\<close> (\<^verbatim>\<open>NUM_READS_PER_PAIR\<close> = 2) are pairs.\<close>

definition mate :: "nat \<Rightarrow> 'a \<times> 'a \<Rightarrow> 'a" where
  "mate r p = (if r = 0 then fst p else snd p)"

definition set_mate :: "nat \<Rightarrow> 'a \<Rightarrow> 'a \<times> 'a \<Rightarrow> 'a \<times> 'a" where
  "set_mate r v p = (if r = 0 then (v, snd p) else (fst p, v))"

text \<open>Modelled from the spec: the fields of a paired result that the orchestrator
  reads or writes.\<close>
record PairedAlignmentResult =
  status :: "AlignmentResult \<times> AlignmentResult"
  location :: "GenomeLocation \<times> GenomeLocation"
  direction :: "Direction \<times> Direction"
  mapq :: "int \<times> int"
  score :: "int \<times> int"
  scorePriorToClipping :: "int \<times> int"
  alignedAsPair :: bool
  fromAlignTogether :: bool
  nanosInAlignTogether :: int64
  nLVCalls :: nat
  nSmallHits :: nat

record SingleAlignmentResult =
  s_status :: AlignmentResult
  s_mapq :: int
  s_direction :: Direction
  s_location :: GenomeLocation
  s_score :: int
  s_scorePriorToClipping :: int

text \<open>
  The progress tracker of one pair.  Pointer fields hold what they point to: \<open>aligner\<close>
  is the state of the pair's own paired engine, \<open>result0\<close> is \<^verbatim>\<open>result[0]\<close> (the
  primary result), \<open>resultSecondary\<close> is the buffer starting at \<^verbatim>\<open>&result[1]\<close>,
  \<open>popularSeedsSkipped\<close> is the cell the pointer of that name refers to and
  \<open>singleEndSecondaryResults\<close> is the single-end secondary buffer.
\<close>
record ('e, 'l) TenXProgressTracker =
  pairNotDone :: bool
  singleNotDone :: bool
  pairedReads :: "Read \<times> Read"
  aligner :: 'e
  result0 :: PairedAlignmentResult
  resultSecondary :: "PairedAlignmentResult list"
  popularSeedsSkipped :: "32 word"
  nextLoci :: 'l
  next_tracker :: "nat option"
  nSecondaryResults :: int64
  secondaryResultBufferSize :: int64
  nSingleEndSecondaryResultsForFirstRead :: int64
  nSingleEndSecondaryResultsForSecondRead :: int64
  singleSecondaryBufferSize :: int64
  singleEndSecondaryResults :: "SingleAlignmentResult list"

text \<open>
  The external engines.  Each operation takes the engine state and the arguments the
  orchestrator passes, and returns its result together with the new engine state and the
  new contents of every location it is handed a pointer to.
  \<^item> \<open>align_phase_1 e read0 read1 popularSeedsSkipped\<close>
  \<^item> \<open>align_phase_2_init e\<close>, \<open>align_phase_2_get_loci e\<close>,
    \<open>align_phase_2_to_target_loc e clusterTargetLoc\<close>
  \<^item> \<open>align_phase_3 e maxEditDistanceForSecondaryResults secondaryResultBufferSize
    nSecondaryResults secondaryBuffer maxSecondaryAlignmentsToReturn popularSeedsSkipped\<close>
    returns the overflow flag, and in \<open>'s\<close> the scoring locals (best pair score,
    locations, directions, probabilities) it was handed freshly initialised
  \<^item> \<open>align_phase_4 e read0 read1 result0 maxEditDistanceForSecondaryResults
    nSecondaryResults secondaryBuffer maxSecondaryAlignmentsToReturn popularSeedsSkipped
    locals\<close>
  \<^item> \<open>AlignRead a read maxEditDistanceForSecondaryResults capacity
    maxSecondaryAlignmentsToReturn buffer offset\<close> (the buffer pointer is
    \<^verbatim>\<open>singleEndSecondaryResults + offset\<close>) returns the fits-in-buffer flag, the
    single result and the number of secondary results of this call.
\<close>
record ('e, 'a, 'l, 's) Engines =
  align_phase_1 :: "'e \<Rightarrow> Read \<Rightarrow> Read \<Rightarrow> 32 word \<Rightarrow> bool \<times> 'e \<times> 32 word"
  align_phase_2_init :: "'e \<Rightarrow> bool \<times> 'e"
  align_phase_2_get_loci :: "'e \<Rightarrow> 'l"
  align_phase_2_to_target_loc :: "'e \<Rightarrow> GenomeLocation \<Rightarrow> 'e"
  align_phase_3 :: "'e \<Rightarrow> int \<Rightarrow> int64 \<Rightarrow> int64 \<Rightarrow> PairedAlignmentResult list \<Rightarrow> int64
     \<Rightarrow> 32 word \<Rightarrow> bool \<times> 'e \<times> int64 \<times> PairedAlignmentResult list \<times> 32 word \<times> 's"
  align_phase_4 :: "'e \<Rightarrow> Read \<Rightarrow> Read \<Rightarrow> PairedAlignmentResult \<Rightarrow> int \<Rightarrow> int64
     \<Rightarrow> PairedAlignmentResult list \<Rightarrow> int64 \<Rightarrow> 32 word \<Rightarrow> 's
     \<Rightarrow> 'e \<times> PairedAlignmentResult \<times> int64 \<times> PairedAlignmentResult list \<times> 32 word"
  AlignRead :: "'a \<Rightarrow> Read \<Rightarrow> int \<Rightarrow> int64 \<Rightarrow> int64 \<Rightarrow> SingleAlignmentResult list \<Rightarrow> int64
     \<Rightarrow> bool \<times> 'a \<times> SingleAlignmentResult \<times> int64 \<times> SingleAlignmentResult list"

text \<open>One entry of the trace per engine call, with the index of the pair it is made for
  (and the mate, for the single-end engine).\<close>
datatype engine_call =
    AlignPhase1 nat
  | AlignPhase2Init nat
  | AlignPhase2GetLoci nat
  | AlignPhase2ToTargetLoc nat GenomeLocation
  | AlignPhase3 nat
  | AlignPhase4 nat
  | SingleAlignRead nat nat

fun call_pair :: "engine_call \<Rightarrow> nat" where
  "call_pair (AlignPhase1 i) = i"
| "call_pair (AlignPhase2Init i) = i"
| "call_pair (AlignPhase2GetLoci i) = i"
| "call_pair (AlignPhase2ToTargetLoc i loc) = i"
| "call_pair (AlignPhase3 i) = i"
| "call_pair (AlignPhase4 i) = i"
| "call_pair (SingleAlignRead i r) = i"

definition calls_for :: "nat \<Rightarrow> engine_call list \<Rightarrow> engine_call list" where
  "calls_for i cs = filter (\<lambda>c. call_pair c = i) cs"

fun is_target_call :: "engine_call \<Rightarrow> bool" where
  "is_target_call (AlignPhase2ToTargetLoc i loc) = True"
| "is_target_call c = False"

fun is_scoring_call :: "engine_call \<Rightarrow> bool" where
  "is_scoring_call (AlignPhase3 i) = True"
| "is_scoring_call (AlignPhase4 i) = True"
| "is_scoring_call c = False"

fun is_single_call :: "engine_call \<Rightarrow> bool" where
  "is_single_call (SingleAlignRead i r) = True"
| "is_single_call c = False"

text \<open>The constant members of the aligner object that the stages read.\<close>
record Config =
  minReadLength :: nat
  forceSpacing :: bool

text \<open>The mutable part: the tracker array (of \<^verbatim>\<open>maxBarcodeSize\<close> entries), the
  single-end aligner shared by all pairs, and the trace of engine calls.\<close>
record ('e, 'a, 'l) ClusterAligner =
  progressTracker :: "('e, 'l) TenXProgressTracker list"
  singleAligner :: 'a
  calls :: "engine_call list"

subsection \<open>Loops\<close>

text \<open>\<^verbatim>\<open>for (pairIdx = 0; pairIdx < n; pairIdx++) body\<close>: the state after the
  iterations \<open>0, ..., n - 1\<close>.\<close>
primrec for_loop :: "(nat \<Rightarrow> 'x \<Rightarrow> 'x) \<Rightarrow> nat \<Rightarrow> 'x \<Rightarrow> 'x" where
  "for_loop body 0 x = x"
| "for_loop body (Suc n) x = body n (for_loop body n x)"

subsection \<open>Stage 1\<close>

text \<open>
  The body of the first loop of \<^verbatim>\<open>align_first_stage\<close> on one tracker.  The first
  component is \<open>False\<close> where the source executes \<^verbatim>\<open>barcodeFinished = false\<close>; the
  last is the engine calls made.
\<close>
definition first_stage_pair ::
  "Config \<Rightarrow> ('e, 'a, 'l, 's) Engines \<Rightarrow> nat \<Rightarrow> ('e, 'l) TenXProgressTracker
   \<Rightarrow> bool \<times> ('e, 'l) TenXProgressTracker \<times> engine_call list" where
  "first_stage_pair cfg ops pairIdx t =
    (if pairNotDone t then
       let t1 = t\<lparr>result0 := (result0 t)\<lparr>status := (NotFound, NotFound)\<rparr>\<rparr>;
           read0 = fst (pairedReads t1);
           read1 = snd (pairedReads t1)
       in
       if getDataLength read0 < minReadLength cfg \<and> getDataLength read1 < minReadLength cfg
       then
         (True,
          t1\<lparr>result0 := (result0 t1)\<lparr>
                location := (0, 0), mapq := (0, 0), score := (0, 0),
                status := (NotFound, NotFound),
                alignedAsPair := False, fromAlignTogether := False,
                nanosInAlignTogether := 0, nLVCalls := 0, nSmallHits := 0\<rparr>,
             pairNotDone := False, singleNotDone := False\<rparr>,
          [])
       else if getDataLength read0 \<ge> minReadLength cfg \<and> getDataLength read1 \<ge> minReadLength cfg
       then
         (case align_phase_1 ops (aligner t1) read0 read1 (popularSeedsSkipped t1) of
            (stop, e1, p1) \<Rightarrow>
              let t2 = t1\<lparr>aligner := e1, popularSeedsSkipped := p1, pairNotDone := \<not> stop\<rparr> in
              if pairNotDone t2 then
                (case align_phase_2_init ops (aligner t2) of
                   (cont, e2) \<Rightarrow>
                     (False,
                      t2\<lparr>aligner := e2, pairNotDone := cont,
                         nextLoci := align_phase_2_get_loci ops e2,
                         next_tracker := None\<rparr>,
                      [AlignPhase1 pairIdx, AlignPhase2Init pairIdx, AlignPhase2GetLoci pairIdx]))
              else (False, t2, [AlignPhase1 pairIdx]))
       else (False, t1, [])
     else (True, t, []))"

definition first_stage_body ::
  "Config \<Rightarrow> ('e, 'a, 'l, 's) Engines \<Rightarrow> nat \<Rightarrow> bool \<times> ('e, 'a, 'l) ClusterAligner
   \<Rightarrow> bool \<times> ('e, 'a, 'l) ClusterAligner" where
  "first_stage_body cfg ops pairIdx x =
    (case x of (barcodeFinished, st) \<Rightarrow>
      (case first_stage_pair cfg ops pairIdx (progressTracker st ! pairIdx) of
         (keep, t', cs) \<Rightarrow>
           (barcodeFinished \<and> keep,
            st\<lparr>progressTracker := (progressTracker st)[pairIdx := t'],
               calls := calls st @ cs\<rparr>)))"

text \<open>\<^verbatim>\<open>GenomeLocation clusterTargetLoc = GenomeLocation(0000000000)\<close>\<close>
definition clusterTargetLoc :: GenomeLocation where
  "clusterTargetLoc = 0"

text \<open>The body of the second loop of \<^verbatim>\<open>align_first_stage\<close>.\<close>
definition first_stage_target_body ::
  "('e, 'a, 'l, 's) Engines \<Rightarrow> nat \<Rightarrow> ('e, 'a, 'l) ClusterAligner \<Rightarrow> ('e, 'a, 'l) ClusterAligner" where
  "first_stage_target_body ops pairIdx st =
    (let t = progressTracker st ! pairIdx in
     if pairNotDone t then
       st\<lparr>progressTracker := (progressTracker st)
             [pairIdx := t\<lparr>aligner := align_phase_2_to_target_loc ops (aligner t) clusterTargetLoc\<rparr>],
          calls := calls st @ [AlignPhase2ToTargetLoc pairIdx clusterTargetLoc]\<rparr>
     else st)"

text \<open>\<open>None\<close>: \<open>barcodeSize\<close> exceeds the tracker array (the source would index past
  its end).\<close>
definition align_first_stage ::
  "Config \<Rightarrow> ('e, 'a, 'l, 's) Engines \<Rightarrow> nat \<Rightarrow> ('e, 'a, 'l) ClusterAligner
   \<Rightarrow> (bool \<times> ('e, 'a, 'l) ClusterAligner) option" where
  "align_first_stage cfg ops barcodeSize st =
    (if barcodeSize \<le> length (progressTracker st) then
       (case for_loop (first_stage_body cfg ops) barcodeSize (True, st) of
          (barcodeFinished, st1) \<Rightarrow>
            Some (barcodeFinished, for_loop (first_stage_target_body ops) barcodeSize st1))
     else None)"

subsection \<open>Stage 2\<close>

text \<open>
  The body of the loop of \<^verbatim>\<open>align_second_stage\<close> on one tracker; the components of
  the result are as for stage 1.  The scoring locals (\<^verbatim>\<open>bestPairScore\<close>, ...) that
  the source initialises and hands to \<^verbatim>\<open>align_phase_3\<close> come back as \<open>best\<close> and go
  to \<^verbatim>\<open>align_phase_4\<close>.  The \<^verbatim>\<open>_ASSERT\<close> of the forced-spacing branch has no
  effect on the state and is left out.
\<close>
definition second_stage_pair ::
  "Config \<Rightarrow> ('e, 'a, 'l, 's) Engines \<Rightarrow> int \<Rightarrow> int64 \<Rightarrow> nat \<Rightarrow> ('e, 'l) TenXProgressTracker
   \<Rightarrow> bool \<times> ('e, 'l) TenXProgressTracker \<times> engine_call list" where
  "second_stage_pair cfg ops maxEditDistanceForSecondaryResults maxSecondaryAlignmentsToReturn
      pairIdx t =
    (if pairNotDone t then
       let read0 = fst (pairedReads t);
           read1 = snd (pairedReads t);
           t1 = t\<lparr>nSingleEndSecondaryResultsForFirstRead := 0,
                  nSingleEndSecondaryResultsForSecondRead := 0\<rparr>
       in
       (case align_phase_3 ops (aligner t1) maxEditDistanceForSecondaryResults
               (secondaryResultBufferSize t1) (nSecondaryResults t1) (resultSecondary t1)
               maxSecondaryAlignmentsToReturn (popularSeedsSkipped t1) of
          (secondaryBufferOverflow, e1, n1, buf1, p1, best) \<Rightarrow>
            let t2 = t1\<lparr>aligner := e1, nSecondaryResults := n1, resultSecondary := buf1,
                        popularSeedsSkipped := p1\<rparr>
            in
            if secondaryBufferOverflow then
              (False,
               t2\<lparr>nSingleEndSecondaryResultsForFirstRead := 0,
                  nSingleEndSecondaryResultsForSecondRead := 0,
                  nSecondaryResults := secondaryResultBufferSize t2 + 1\<rparr>,
               [AlignPhase3 pairIdx])
            else
              (case align_phase_4 ops (aligner t2) read0 read1 (result0 t2)
                      maxEditDistanceForSecondaryResults (nSecondaryResults t2)
                      (resultSecondary t2) maxSecondaryAlignmentsToReturn
                      (popularSeedsSkipped t2) best of
                 (e2, r0, n2, buf2, p2) \<Rightarrow>
                   let t3 = t2\<lparr>aligner := e2, result0 := r0, nSecondaryResults := n2,
                               resultSecondary := buf2, popularSeedsSkipped := p2\<rparr>;
                       t4 = t3\<lparr>result0 := (result0 t3)\<lparr>
                               nanosInAlignTogether := 0, fromAlignTogether := True,
                               alignedAsPair := True\<rparr>\<rparr>;
                       cs = [AlignPhase3 pairIdx, AlignPhase4 pairIdx]
                   in
                   if forceSpacing cfg then
                     let t5 = (if fst (status (result0 t4)) = NotFound
                               then t4\<lparr>result0 := (result0 t4)\<lparr>fromAlignTogether := False\<rparr>\<rparr>
                               else t4)
                     in (True, t5\<lparr>pairNotDone := False, singleNotDone := False\<rparr>, cs)
                   else if fst (status (result0 t4)) \<noteq> NotFound
                           \<and> snd (status (result0 t4)) \<noteq> NotFound then
                     (True, t4\<lparr>pairNotDone := False, singleNotDone := False\<rparr>, cs)
                   else (True, t4\<lparr>pairNotDone := False\<rparr>, cs)))
     else (True, t, []))"

definition second_stage_body ::
  "Config \<Rightarrow> ('e, 'a, 'l, 's) Engines \<Rightarrow> int \<Rightarrow> int64 \<Rightarrow> nat
   \<Rightarrow> bool \<times> ('e, 'a, 'l) ClusterAligner \<Rightarrow> bool \<times> ('e, 'a, 'l) ClusterAligner" where
  "second_stage_body cfg ops maxEdit maxSecondary pairIdx x =
    (case x of (barcodeFinished, st) \<Rightarrow>
      (case second_stage_pair cfg ops maxEdit maxSecondary pairIdx (progressTracker st ! pairIdx) of
         (keep, t', cs) \<Rightarrow>
           (barcodeFinished \<and> keep,
            st\<lparr>progressTracker := (progressTracker st)[pairIdx := t'],
               calls := calls st @ cs\<rparr>)))"

definition align_second_stage ::
  "Config \<Rightarrow> ('e, 'a, 'l, 's) Engines \<Rightarrow> nat \<Rightarrow> int \<Rightarrow> int64 \<Rightarrow> ('e, 'a, 'l) ClusterAligner
   \<Rightarrow> (bool \<times> ('e, 'a, 'l) ClusterAligner) option" where
  "align_second_stage cfg ops barcodeSize maxEdit maxSecondary st =
    (if barcodeSize \<le> length (progressTracker st) then
       Some (for_loop (second_stage_body cfg ops maxEdit maxSecondary) barcodeSize (True, st))
     else None)"

subsection \<open>Stage 3\<close>

text \<open>\<^verbatim>\<open>*(resultCount[r]) = v\<close>, where the source initialises both entries of
  \<^verbatim>\<open>resultCount\<close> with \<^verbatim>\<open>&nSingleEndSecondaryResultsForFirstRead\<close>.\<close>
definition resultCount_assign ::
  "nat \<Rightarrow> int64 \<Rightarrow> ('e, 'l) TenXProgressTracker \<Rightarrow> ('e, 'l) TenXProgressTracker" where
  "resultCount_assign r v t =
    (if r = 0 then t\<lparr>nSingleEndSecondaryResultsForFirstRead := v\<rparr>
     else t\<lparr>nSingleEndSecondaryResultsForFirstRead := v\<rparr>)"

text \<open>One iteration of the inner loop over the mates; the first component is \<open>False\<close>
  where the source leaves the loop at \<^verbatim>\<open>break\<close>.\<close>
definition third_stage_read ::
  "Config \<Rightarrow> ('e, 'a, 'l, 's) Engines \<Rightarrow> int \<Rightarrow> int64 \<Rightarrow> nat \<Rightarrow> nat
   \<Rightarrow> 'a \<Rightarrow> ('e, 'l) TenXProgressTracker
   \<Rightarrow> bool \<times> 'a \<times> ('e, 'l) TenXProgressTracker \<times> engine_call list" where
  "third_stage_read cfg ops maxEditDistanceForSecondaryResults maxSecondaryAlignmentsToReturn
      pairIdx r sa t =
    (let rd = mate r (pairedReads t) in
     if getDataLength rd < minReadLength cfg then
       (True, sa,
        t\<lparr>result0 := (result0 t)\<lparr>
            status := set_mate r NotFound (status (result0 t)),
            mapq := set_mate r 0 (mapq (result0 t)),
            direction := set_mate r FORWARD (direction (result0 t)),
            location := set_mate r 0 (location (result0 t)),
            score := set_mate r 0 (score (result0 t))\<rparr>\<rparr>,
        [])
     else
       (case AlignRead ops sa rd maxEditDistanceForSecondaryResults
               (singleSecondaryBufferSize t - nSingleEndSecondaryResultsForFirstRead t)
               maxSecondaryAlignmentsToReturn (singleEndSecondaryResults t)
               (nSingleEndSecondaryResultsForFirstRead t) of
          (fitInSecondaryBuffer, sa1, singleResult, singleEndSecondaryResultsThisTime, buf1) \<Rightarrow>
            let t1 = t\<lparr>singleEndSecondaryResults := buf1\<rparr> in
            if \<not> fitInSecondaryBuffer then
              (False, sa1,
               t1\<lparr>nSecondaryResults := 0,
                  nSingleEndSecondaryResultsForFirstRead := singleSecondaryBufferSize t1 + 1,
                  nSingleEndSecondaryResultsForSecondRead := 0\<rparr>,
               [SingleAlignRead pairIdx r])
            else
              let t2 = resultCount_assign r singleEndSecondaryResultsThisTime t1 in
              (True, sa1,
               t2\<lparr>result0 := (result0 t2)\<lparr>
                   status := set_mate r (s_status singleResult) (status (result0 t2)),
                   mapq := set_mate r (s_mapq singleResult sdiv 3) (mapq (result0 t2)),
                   direction := set_mate r (s_direction singleResult) (direction (result0 t2)),
                   location := set_mate r (s_location singleResult) (location (result0 t2)),
                   score := set_mate r (s_score singleResult) (score (result0 t2)),
                   scorePriorToClipping := set_mate r (s_scorePriorToClipping singleResult)
                                             (scorePriorToClipping (result0 t2))\<rparr>\<rparr>,
               [SingleAlignRead pairIdx r])))"

text \<open>The body of the outer loop on one tracker: the inner loop runs mate 0, then mate 1
  unless mate 0 left it.  (The dump under \<^verbatim>\<open>#ifdef _DEBUG\<close> only prints.)\<close>
definition third_stage_pair ::
  "Config \<Rightarrow> ('e, 'a, 'l, 's) Engines \<Rightarrow> int \<Rightarrow> int64 \<Rightarrow> nat
   \<Rightarrow> 'a \<Rightarrow> ('e, 'l) TenXProgressTracker
   \<Rightarrow> bool \<times> 'a \<times> ('e, 'l) TenXProgressTracker \<times> engine_call list" where
  "third_stage_pair cfg ops maxEdit maxSecondary pairIdx sa t =
    (if singleNotDone t then
       (case third_stage_read cfg ops maxEdit maxSecondary pairIdx 0 sa t of
          (ok0, sa0, t0, c0) \<Rightarrow>
            if \<not> ok0 then (False, sa0, t0, c0)
            else
              (case third_stage_read cfg ops maxEdit maxSecondary pairIdx 1 sa0 t0 of
                 (ok1, sa1, t1, c1) \<Rightarrow>
                   if \<not> ok1 then (False, sa1, t1, c0 @ c1)
                   else
                     (True, sa1,
                      t1\<lparr>singleNotDone := False,
                         result0 := (result0 t1)\<lparr>fromAlignTogether := False,
                                                 alignedAsPair := False\<rparr>\<rparr>,
                      c0 @ c1)))
     else (True, sa, t, []))"

definition third_stage_body ::
  "Config \<Rightarrow> ('e, 'a, 'l, 's) Engines \<Rightarrow> int \<Rightarrow> int64 \<Rightarrow> nat
   \<Rightarrow> bool \<times> ('e, 'a, 'l) ClusterAligner \<Rightarrow> bool \<times> ('e, 'a, 'l) ClusterAligner" where
  "third_stage_body cfg ops maxEdit maxSecondary pairIdx x =
    (case x of (barcodeFinished, st) \<Rightarrow>
      (case third_stage_pair cfg ops maxEdit maxSecondary pairIdx (singleAligner st)
              (progressTracker st ! pairIdx) of
         (keep, sa', t', cs) \<Rightarrow>
           (barcodeFinished \<and> keep,
            st\<lparr>progressTracker := (progressTracker st)[pairIdx := t'],
               singleAligner := sa',
               calls := calls st @ cs\<rparr>)))"

definition align_third_stage ::
  "Config \<Rightarrow> ('e, 'a, 'l, 's) Engines \<Rightarrow> nat \<Rightarrow> int \<Rightarrow> int64 \<Rightarrow> ('e, 'a, 'l) ClusterAligner
   \<Rightarrow> (bool \<times> ('e, 'a, 'l) ClusterAligner) option" where
  "align_third_stage cfg ops barcodeSize maxEdit maxSecondary st =
    (if barcodeSize \<le> length (progressTracker st) then
       Some (for_loop (third_stage_body cfg ops maxEdit maxSecondary) barcodeSize (True, st))
     else None)"

subsection \<open>The entry point\<close>

text \<open>\<^verbatim>\<open>TenXClusterAligner::align\<close>.  Of its parameters the body reads only
  \<^verbatim>\<open>barcodeSize\<close>, \<^verbatim>\<open>maxEditDistanceForSecondaryResults\<close> and
  \<^verbatim>\<open>maxSecondaryAlignmentsToReturn\<close>; reads, results and buffer sizes are taken from
  the trackers.\<close>
definition align ::
  "Config \<Rightarrow> ('e, 'a, 'l, 's) Engines \<Rightarrow> nat \<Rightarrow> int \<Rightarrow> int64 \<Rightarrow> ('e, 'a, 'l) ClusterAligner
   \<Rightarrow> (bool \<times> ('e, 'a, 'l) ClusterAligner) option" where
  "align cfg ops barcodeSize maxEdit maxSecondary st =
    (case align_first_stage cfg ops barcodeSize st of
       None \<Rightarrow> None
     | Some (fin1, st1) \<Rightarrow>
         if fin1 then Some (True, st1)
         else
           (case align_second_stage cfg ops barcodeSize maxEdit maxSecondary st1 of
              None \<Rightarrow> None
            | Some (fin2, st2) \<Rightarrow>
                if \<not> fin2 then Some (False, st2)
                else
                  (case align_third_stage cfg ops barcodeSize maxEdit maxSecondary st2 of
                     None \<Rightarrow> None
                   | Some (fin3, st3) \<Rightarrow>
                       if fin3 then Some (True, st3) else Some (False, st3))))"

subsection \<open>Vocabulary of the statements\<close>

text \<open>The common shape of the loop bodies of stages 1 and 2: a function of the tracker
  at \<open>pairIdx\<close>, whose result is written back.\<close>
definition tracker_step ::
  "(nat \<Rightarrow> ('e, 'l) TenXProgressTracker \<Rightarrow> bool \<times> ('e, 'l) TenXProgressTracker \<times> engine_call list)
   \<Rightarrow> nat \<Rightarrow> bool \<times> ('e, 'a, 'l) ClusterAligner \<Rightarrow> bool \<times> ('e, 'a, 'l) ClusterAligner" where
  "tracker_step f k x =
    (case x of (b, st) \<Rightarrow>
      (case f k (progressTracker st ! k) of
         (keep, t', cs) \<Rightarrow>
           (b \<and> keep,
            st\<lparr>progressTracker := (progressTracker st)[k := t'], calls := calls st @ cs\<rparr>)))"

text \<open>What the second loop of stage 1 does to one tracker.\<close>
definition retarget ::
  "('e, 'a, 'l, 's) Engines \<Rightarrow> ('e, 'l) TenXProgressTracker \<Rightarrow> ('e, 'l) TenXProgressTracker" where
  "retarget ops t =
     (if pairNotDone t
      then t\<lparr>aligner := align_phase_2_to_target_loc ops (aligner t) clusterTargetLoc\<rparr> else t)"

text \<open>Both mates are shorter than the minimum read length; both mates reach it.\<close>
definition both_short :: "Config \<Rightarrow> ('e, 'l) TenXProgressTracker \<Rightarrow> bool" where
  "both_short cfg t =
     (getDataLength (fst (pairedReads t)) < minReadLength cfg
      \<and> getDataLength (snd (pairedReads t)) < minReadLength cfg)"

definition both_long :: "Config \<Rightarrow> ('e, 'l) TenXProgressTracker \<Rightarrow> bool" where
  "both_long cfg t =
     (minReadLength cfg \<le> getDataLength (fst (pairedReads t))
      \<and> minReadLength cfg \<le> getDataLength (snd (pairedReads t)))"

text \<open>The overflow flag \<open>align_phase_3\<close> returns when stage 2 calls it for a tracker.\<close>
definition phase3_overflow ::
  "('e, 'a, 'l, 's) Engines \<Rightarrow> int \<Rightarrow> int64 \<Rightarrow> ('e, 'l) TenXProgressTracker \<Rightarrow> bool" where
  "phase3_overflow ops me ms t =
     fst (align_phase_3 ops (aligner t) me (secondaryResultBufferSize t) (nSecondaryResults t)
            (resultSecondary t) ms (popularSeedsSkipped t))"

subsection \<open>Scripted engines and barcodes for concrete runs\<close>

text \<open>A paired engine whose state says what it will report: whether phase 1 ends the
  search, how many candidate secondary pairs there are, and the status of the two mates.
  The single-end engine's state is the list of secondary-result counts it will report for
  the coming calls.\<close>
record ScriptedPair =
  stops :: bool
  candidates :: int64
  found :: "AlignmentResult \<times> AlignmentResult"

definition scripted_single :: SingleAlignmentResult where
  "scripted_single = \<lparr>s_status = Found, s_mapq = 60, s_direction = FORWARD, s_location = 100,
     s_score = 0, s_scorePriorToClipping = 0\<rparr>"

definition scripted_engines :: "(ScriptedPair, int64 list, unit, unit) Engines" where
  "scripted_engines = \<lparr>
     align_phase_1 = (\<lambda>e read0 read1 p. (stops e, e, p)),
     align_phase_2_init = (\<lambda>e. (True, e)),
     align_phase_2_get_loci = (\<lambda>e. ()),
     align_phase_2_to_target_loc = (\<lambda>e loc. e),
     align_phase_3 = (\<lambda>e me cap n buf ms p.
        if cap < candidates e then (True, e, n, buf, p, ())
        else (False, e, candidates e, buf, p, ())),
     align_phase_4 = (\<lambda>e read0 read1 res me n buf ms p best.
        (e, res\<lparr>status := found e\<rparr>, n, buf, p)),
     AlignRead = (\<lambda>a rd me cap ms buf off.
        case a of [] \<Rightarrow> (True, [], scripted_single, 0, buf)
        | c # cs \<Rightarrow> (c \<le> cap, cs, scripted_single, c, buf))\<rparr>"

definition read_of_length :: "nat \<Rightarrow> Read" where
  "read_of_length n = \<lparr>data = replicate n CHR ''A'', dataLength = n\<rparr>"

definition fresh_result :: PairedAlignmentResult where
  "fresh_result = \<lparr>status = (Found, Found), location = (7, 7), direction = (RC, RC),
     mapq = (1, 1), score = (1, 1), scorePriorToClipping = (1, 1), alignedAsPair = True,
     fromAlignTogether = True, nanosInAlignTogether = 1, nLVCalls = 1, nSmallHits = 1\<rparr>"

definition fresh_tracker ::
  "nat \<Rightarrow> nat \<Rightarrow> ScriptedPair \<Rightarrow> int64 \<Rightarrow> int64 \<Rightarrow> (ScriptedPair, unit) TenXProgressTracker" where
  "fresh_tracker len0 len1 e cap scap = \<lparr>
     pairNotDone = True, singleNotDone = True,
     pairedReads = (read_of_length len0, read_of_length len1),
     aligner = e, result0 = fresh_result, resultSecondary = [],
     popularSeedsSkipped = 0, nextLoci = (), next_tracker = None,
     nSecondaryResults = 0, secondaryResultBufferSize = cap,
     nSingleEndSecondaryResultsForFirstRead = 0, nSingleEndSecondaryResultsForSecondRead = 0,
     singleSecondaryBufferSize = scap, singleEndSecondaryResults = []\<rparr>"

definition cfg30 :: "bool \<Rightarrow> Config" where
  "cfg30 force = \<lparr>minReadLength = 30, forceSpacing = force\<rparr>"

definition barcode ::
  "(ScriptedPair, unit) TenXProgressTracker list \<Rightarrow> int64 list
   \<Rightarrow> (ScriptedPair, int64 list, unit) ClusterAligner" where
  "barcode ts script = \<lparr>progressTracker = ts, singleAligner = script, calls = []\<rparr>"

text \<open>The caller's action between two invocations: a larger paired secondary buffer for
  every pair, everything else as it is.\<close>
definition enlarge_paired_buffer ::
  "int64 \<Rightarrow> ('e, 'a, 'l) ClusterAligner \<Rightarrow> ('e, 'a, 'l) ClusterAligner" where
  "enlarge_paired_buffer cap st =
     st\<lparr>progressTracker := map (\<lambda>t. t\<lparr>secondaryResultBufferSize := cap\<rparr>) (progressTracker st)\<rparr>"

text \<open>One pair, paired buffer of capacity 2, 5 candidate secondary pairs.\<close>
definition overflow_barcode :: "(ScriptedPair, int64 list, unit) ClusterAligner" where
  "overflow_barcode =
     barcode [fresh_tracker 50 50 \<lparr>stops = False, candidates = 5, found = (Found, Found)\<rparr> 2 4] []"

text \<open>One pair whose mate 1 the paired engine does not find; 2 paired secondary results;
  the single-end engine will report 3 secondary results, the single-end buffer holds 2.\<close>
definition chimera_barcode :: "(ScriptedPair, int64 list, unit) ClusterAligner" where
  "chimera_barcode =
     barcode [fresh_tracker 50 50 \<lparr>stops = False, candidates = 2, found = (Found, NotFound)\<rparr> 2 2] [3]"

text \<open>One pair that the paired engine does not find; the single-end engine will report 1
  secondary result for the first call and 2 for the second.\<close>
definition two_counts_barcode :: "(ScriptedPair, int64 list, unit) ClusterAligner" where
  "two_counts_barcode =
     barcode [fresh_tracker 50 50 \<lparr>stops = False, candidates = 0, found = (NotFound, NotFound)\<rparr> 2 10] [1, 2]"

text \<open>One pair for which phase 1 reports that the paired search is over.\<close>
definition stopped_barcode :: "(ScriptedPair, int64 list, unit) ClusterAligner" where
  "stopped_barcode =
     barcode [fresh_tracker 50 50 \<lparr>stops = True, candidates = 0, found = (NotFound, NotFound)\<rparr> 2 10] []"

text \<open>One pair, both mates of length 0.\<close>
definition short_barcode :: "(ScriptedPair, int64 list, unit) ClusterAligner" where
  "short_barcode =
     barcode [fresh_tracker 0 0 \<lparr>stops = False, candidates = 0, found = (Found, Found)\<rparr> 2 10] []"




text \<open>A first invocation on \<open>overflow_barcode\<close>, and the caller's retry: the paired
  secondary buffer is enlarged to 8 entries, the tracker state is otherwise as the first
  invocation left it.\<close>
definition overflow_first_call ::
  "(bool \<times> (ScriptedPair, int64 list, unit) ClusterAligner) option" where
  "overflow_first_call = align (cfg30 False) scripted_engines 1 0 10 overflow_barcode"

definition overflow_retry ::
  "(bool \<times> (ScriptedPair, int64 list, unit) ClusterAligner) option" where
  "overflow_retry =
     align (cfg30 False) scripted_engines 1 0 10
       (enlarge_paired_buffer 8 (snd (the overflow_first_call)))"

text \<open>\<open>chimera_barcode\<close> after stages 1 and 2 of an invocation: the pair has been
  scored and waits for the single-end fallback.\<close>
definition chimera_scored :: "(ScriptedPair, int64 list, unit) ClusterAligner" where
  "chimera_scored =
     snd (the (align_second_stage (cfg30 False) scripted_engines 1 0 10
       (snd (the (align_first_stage (cfg30 False) scripted_engines 1 chimera_barcode)))))"

section \<open>Properties\<close>

subsection \<open>The sweeps of stages 1 and 2\<close>

lemma first_stage_body_step: "first_stage_body cfg ops = tracker_step (first_stage_pair cfg ops)"
  by (intro ext) (simp add: first_stage_body_def tracker_step_def)

lemma second_stage_body_step:
  "second_stage_body cfg ops me ms = tracker_step (second_stage_pair cfg ops me ms)"
  by (intro ext) (simp add: second_stage_body_def tracker_step_def)

lemma tracker_step_pair:
  "tracker_step f k (b, st) =
     (b \<and> fst (f k (progressTracker st ! k)),
      st\<lparr>progressTracker := (progressTracker st)[k := fst (snd (f k (progressTracker st ! k)))],
         calls := calls st @ snd (snd (f k (progressTracker st ! k)))\<rparr>)"
  by (simp add: tracker_step_def split: prod.splits)

lemma step_length:
  "length (progressTracker (snd (for_loop (tracker_step f) n (b, st)))) = length (progressTracker st)"
proof (induction n)
  case 0
  then show ?case by simp
next
  case (Suc n)
  then show ?case
    by (cases "for_loop (tracker_step f) n (b, st)") (simp add: tracker_step_pair)
qed

lemma step_single:
  "singleAligner (snd (for_loop (tracker_step f) n (b, st))) = singleAligner st"
proof (induction n)
  case 0
  then show ?case by simp
next
  case (Suc n)
  then show ?case
    by (cases "for_loop (tracker_step f) n (b, st)") (simp add: tracker_step_pair)
qed

lemma step_later:
  "n \<le> j \<Longrightarrow> progressTracker (snd (for_loop (tracker_step f) n (b, st))) ! j = progressTracker st ! j"
proof (induction n)
  case 0
  then show ?case by simp
next
  case (Suc n)
  then show ?case
    by (cases "for_loop (tracker_step f) n (b, st)") (simp add: tracker_step_pair)
qed

lemma step_done:
  "j < n \<Longrightarrow> n \<le> length (progressTracker st) \<Longrightarrow>
   progressTracker (snd (for_loop (tracker_step f) n (b, st))) ! j
     = fst (snd (f j (progressTracker st ! j)))"
proof (induction n)
  case 0
  then show ?case by simp
next
  case (Suc n)
  obtain b' st' where loop: "for_loop (tracker_step f) n (b, st) = (b', st')"
    by (cases "for_loop (tracker_step f) n (b, st)")
  have len: "length (progressTracker st') = length (progressTracker st)"
    using step_length [of f n b st] loop by simp
  have here: "progressTracker st' ! n = progressTracker st ! n"
    using step_later [of n n f b st] loop by simp
  show ?case
  proof (cases "j = n")
    case True
    with Suc.prems len here loop show ?thesis
      by (simp add: tracker_step_pair)
  next
    case False
    with Suc.prems have "j < n" "n \<le> length (progressTracker st)" by simp_all
    from Suc.IH [OF this] loop False show ?thesis
      by (simp add: tracker_step_pair)
  qed
qed

lemma step_calls:
  "calls (snd (for_loop (tracker_step f) n (b, st)))
     = calls st @ concat (map (\<lambda>j. snd (snd (f j (progressTracker st ! j)))) [0..<n])"
proof (induction n)
  case 0
  then show ?case by simp
next
  case (Suc n)
  obtain b' st' where loop: "for_loop (tracker_step f) n (b, st) = (b', st')"
    by (cases "for_loop (tracker_step f) n (b, st)")
  have here: "progressTracker st' ! n = progressTracker st ! n"
    using step_later [of n n f b st] loop by simp
  from Suc loop here show ?case
    by (simp add: tracker_step_pair)
qed

lemma step_flag:
  "fst (for_loop (tracker_step f) n (b, st))
     = (b \<and> (\<forall>j<n. fst (f j (progressTracker st ! j))))"
proof (induction n)
  case 0
  then show ?case by simp
next
  case (Suc n)
  obtain b' st' where loop: "for_loop (tracker_step f) n (b, st) = (b', st')"
    by (cases "for_loop (tracker_step f) n (b, st)")
  have here: "progressTracker st' ! n = progressTracker st ! n"
    using step_later [of n n f b st] loop by simp
  from Suc loop here show ?case
    by (auto simp add: tracker_step_pair less_Suc_eq)
qed

subsection \<open>The sweep of stage 3 and the target loop of stage 1\<close>

lemma third_stage_body_pair:
  "third_stage_body cfg ops me ms k (b, st) =
     (b \<and> fst (third_stage_pair cfg ops me ms k (singleAligner st) (progressTracker st ! k)),
      st\<lparr>progressTracker := (progressTracker st)
            [k := fst (snd (snd (third_stage_pair cfg ops me ms k (singleAligner st) (progressTracker st ! k))))],
         singleAligner := fst (snd (third_stage_pair cfg ops me ms k (singleAligner st) (progressTracker st ! k))),
         calls := calls st @ snd (snd (snd (third_stage_pair cfg ops me ms k (singleAligner st) (progressTracker st ! k))))\<rparr>)"
  by (simp add: third_stage_body_def split: prod.splits)

lemma third_length:
  "length (progressTracker (snd (for_loop (third_stage_body cfg ops me ms) n (b, st))))
     = length (progressTracker st)"
proof (induction n)
  case 0
  then show ?case by simp
next
  case (Suc n)
  then show ?case
    by (cases "for_loop (third_stage_body cfg ops me ms) n (b, st)") (simp add: third_stage_body_pair)
qed

lemma third_later:
  "n \<le> j \<Longrightarrow>
   progressTracker (snd (for_loop (third_stage_body cfg ops me ms) n (b, st))) ! j
     = progressTracker st ! j"
proof (induction n)
  case 0
  then show ?case by simp
next
  case (Suc n)
  then show ?case
    by (cases "for_loop (third_stage_body cfg ops me ms) n (b, st)") (simp add: third_stage_body_pair)
qed

lemma third_done:
  assumes Q: "\<And>sa t. Q t (fst (snd (snd (third_stage_pair cfg ops me ms j sa t))))"
  shows "j < n \<Longrightarrow> n \<le> length (progressTracker st) \<Longrightarrow>
    Q (progressTracker st ! j)
      (progressTracker (snd (for_loop (third_stage_body cfg ops me ms) n (b, st))) ! j)"
proof (induction n)
  case 0
  then show ?case by simp
next
  case (Suc n)
  obtain b' st' where loop: "for_loop (third_stage_body cfg ops me ms) n (b, st) = (b', st')"
    by (cases "for_loop (third_stage_body cfg ops me ms) n (b, st)")
  have len: "length (progressTracker st') = length (progressTracker st)"
    using third_length [of cfg ops me ms n b st] loop by simp
  have here: "progressTracker st' ! n = progressTracker st ! n"
    using third_later [of n n cfg ops me ms b st] loop by simp
  show ?case
  proof (cases "j = n")
    case True
    with Suc.prems len here loop Q [of "progressTracker st ! n" "singleAligner st'"]
    show ?thesis by (simp add: third_stage_body_pair)
  next
    case False
    with Suc.prems have "j < n" "n \<le> length (progressTracker st)" by simp_all
    from Suc.IH [OF this] loop False show ?thesis
      by (simp add: third_stage_body_pair)
  qed
qed

lemma target_body_apply:
  "first_stage_target_body ops k st =
    (if pairNotDone (progressTracker st ! k) then
       st\<lparr>progressTracker := (progressTracker st)
             [k := (progressTracker st ! k)\<lparr>aligner :=
                align_phase_2_to_target_loc ops (aligner (progressTracker st ! k)) clusterTargetLoc\<rparr>],
          calls := calls st @ [AlignPhase2ToTargetLoc k clusterTargetLoc]\<rparr>
     else st)"
  by (simp add: first_stage_target_body_def Let_def)

lemma target_length:
  "length (progressTracker (for_loop (first_stage_target_body ops) n st)) = length (progressTracker st)"
proof (induction n)
  case 0
  then show ?case by simp
next
  case (Suc n)
  define s where "s = for_loop (first_stage_target_body ops) n st"
  have step: "for_loop (first_stage_target_body ops) (Suc n) st = first_stage_target_body ops n s"
    by (simp add: s_def)
  from Suc have "length (progressTracker s) = length (progressTracker st)"
    by (simp add: s_def)
  then show ?case unfolding step by (simp add: target_body_apply)
qed

lemma target_single:
  "singleAligner (for_loop (first_stage_target_body ops) n st) = singleAligner st"
proof (induction n)
  case 0
  then show ?case by simp
next
  case (Suc n)
  define s where "s = for_loop (first_stage_target_body ops) n st"
  have step: "for_loop (first_stage_target_body ops) (Suc n) st = first_stage_target_body ops n s"
    by (simp add: s_def)
  from Suc have "singleAligner s = singleAligner st"
    by (simp add: s_def)
  then show ?case unfolding step by (simp add: target_body_apply)
qed

lemma target_later:
  "n \<le> j \<Longrightarrow> progressTracker (for_loop (first_stage_target_body ops) n st) ! j = progressTracker st ! j"
proof (induction n)
  case 0
  then show ?case by simp
next
  case (Suc n)
  define s where "s = for_loop (first_stage_target_body ops) n st"
  have step: "for_loop (first_stage_target_body ops) (Suc n) st = first_stage_target_body ops n s"
    by (simp add: s_def)
  from Suc have "progressTracker s ! j = progressTracker st ! j" "n \<noteq> j"
    by (simp_all add: s_def)
  then show ?case unfolding step by (simp add: target_body_apply)
qed

lemma target_done:
  "j < n \<Longrightarrow> n \<le> length (progressTracker st) \<Longrightarrow>
   progressTracker (for_loop (first_stage_target_body ops) n st) ! j = retarget ops (progressTracker st ! j)"
proof (induction n)
  case 0
  then show ?case by simp
next
  case (Suc n)
  define s where "s = for_loop (first_stage_target_body ops) n st"
  have step: "for_loop (first_stage_target_body ops) (Suc n) st = first_stage_target_body ops n s"
    by (simp add: s_def)
  have len: "length (progressTracker s) = length (progressTracker st)"
    using target_length [of ops n st] by (simp add: s_def)
  have here: "progressTracker s ! n = progressTracker st ! n"
    using target_later [of n n ops st] by (simp add: s_def)
  show ?case
  proof (cases "j = n")
    case True
    with Suc.prems len here show ?thesis
      unfolding step by (simp add: target_body_apply retarget_def)
  next
    case False
    with Suc.prems have "j < n" "n \<le> length (progressTracker st)" by simp_all
    from Suc.IH [OF this] have "progressTracker s ! j = retarget ops (progressTracker st ! j)"
      by (simp add: s_def)
    with False show ?thesis
      unfolding step by (simp add: target_body_apply)
  qed
qed

lemma target_calls:
  "calls (for_loop (first_stage_target_body ops) n st)
     = calls st @ map (\<lambda>j. AlignPhase2ToTargetLoc j clusterTargetLoc)
                    (filter (\<lambda>j. pairNotDone (progressTracker st ! j)) [0..<n])"
proof (induction n)
  case 0
  then show ?case by simp
next
  case (Suc n)
  define s where "s = for_loop (first_stage_target_body ops) n st"
  have step: "for_loop (first_stage_target_body ops) (Suc n) st = first_stage_target_body ops n s"
    by (simp add: s_def)
  have here: "progressTracker s ! n = progressTracker st ! n"
    using target_later [of n n ops st] by (simp add: s_def)
  from Suc have "calls s = calls st @ map (\<lambda>j. AlignPhase2ToTargetLoc j clusterTargetLoc)
                    (filter (\<lambda>j. pairNotDone (progressTracker st ! j)) [0..<n])"
    by (simp add: s_def)
  with here show ?case
    unfolding step by (simp add: target_body_apply)
qed

subsection \<open>One pair in one stage\<close>

lemma first_pair_idle:
  "\<not> pairNotDone t \<Longrightarrow> first_stage_pair cfg ops i t = (True, t, [])"
  by (simp add: first_stage_pair_def)

lemma first_pair_keep:
  "fst (first_stage_pair cfg ops i t) = (\<not> pairNotDone t \<or> both_short cfg t)"
  by (simp add: first_stage_pair_def both_short_def Let_def split: prod.splits)

lemma first_pair_flags:
  "(pairNotDone (fst (snd (first_stage_pair cfg ops i t))) \<longrightarrow> pairNotDone t)
   \<and> (singleNotDone (fst (snd (first_stage_pair cfg ops i t))) \<longrightarrow> singleNotDone t)"
  by (simp add: first_stage_pair_def Let_def split: prod.splits)

lemma first_pair_calls:
  "c \<in> set (snd (snd (first_stage_pair cfg ops i t))) \<Longrightarrow>
     call_pair c = i \<and> \<not> is_target_call c \<and> \<not> is_scoring_call c \<and> \<not> is_single_call c
     \<and> pairNotDone t \<and> both_long cfg t"
  by (auto simp add: first_stage_pair_def both_long_def Let_def split: prod.splits if_splits)

lemma first_pair_phase1_count:
  "count_list (snd (snd (first_stage_pair cfg ops i t))) (AlignPhase1 j)
     = (if j = i \<and> pairNotDone t \<and> both_long cfg t then 1 else 0)"
  by (auto simp add: first_stage_pair_def both_long_def Let_def split: prod.splits)

lemma first_pair_short:
  "pairNotDone t \<Longrightarrow> both_short cfg t \<Longrightarrow>
   first_stage_pair cfg ops i t =
     (True,
      t\<lparr>result0 := (result0 t)\<lparr>
            location := (0, 0), mapq := (0, 0), score := (0, 0),
            status := (NotFound, NotFound),
            alignedAsPair := False, fromAlignTogether := False,
            nanosInAlignTogether := 0, nLVCalls := 0, nSmallHits := 0\<rparr>,
         pairNotDone := False, singleNotDone := False\<rparr>,
      [])"
  by (simp add: first_stage_pair_def both_short_def Let_def)

lemma second_pair_idle:
  "\<not> pairNotDone t \<Longrightarrow> second_stage_pair cfg ops me ms i t = (True, t, [])"
  by (simp add: second_stage_pair_def)

lemma second_pair_flags:
  "(pairNotDone (fst (snd (second_stage_pair cfg ops me ms i t))) \<longrightarrow> pairNotDone t)
   \<and> (singleNotDone (fst (snd (second_stage_pair cfg ops me ms i t))) \<longrightarrow> singleNotDone t)"
  by (simp add: second_stage_pair_def Let_def split: prod.splits)

lemma second_pair_keep:
  "fst (second_stage_pair cfg ops me ms i t)
     = (\<not> pairNotDone (fst (snd (second_stage_pair cfg ops me ms i t))))"
  by (simp add: second_stage_pair_def Let_def split: prod.splits)

lemma second_pair_calls:
  "c \<in> set (snd (snd (second_stage_pair cfg ops me ms i t))) \<Longrightarrow>
     (c = AlignPhase3 i \<or> c = AlignPhase4 i) \<and> pairNotDone t"
  by (auto simp add: second_stage_pair_def Let_def split: prod.splits if_splits)

lemma second_pair_overflow:
  "pairNotDone t \<Longrightarrow> phase3_overflow ops me ms t \<Longrightarrow>
   second_stage_pair cfg ops me ms i t =
     (case align_phase_3 ops (aligner t) me (secondaryResultBufferSize t) (nSecondaryResults t)
            (resultSecondary t) ms (popularSeedsSkipped t) of
        (ov, e1, n1, buf1, p1, best) \<Rightarrow>
          (False,
           t\<lparr>aligner := e1, resultSecondary := buf1, popularSeedsSkipped := p1,
             nSingleEndSecondaryResultsForFirstRead := 0,
             nSingleEndSecondaryResultsForSecondRead := 0,
             nSecondaryResults := secondaryResultBufferSize t + 1\<rparr>,
           [AlignPhase3 i]))"
  by (cases "align_phase_3 ops (aligner t) me (secondaryResultBufferSize t) (nSecondaryResults t)
            (resultSecondary t) ms (popularSeedsSkipped t)")
     (simp add: second_stage_pair_def phase3_overflow_def Let_def)

lemma second_pair_still_active:
  "pairNotDone (fst (snd (second_stage_pair cfg ops me ms i t))) \<Longrightarrow>
     pairNotDone t \<and> phase3_overflow ops me ms t"
  by (simp add: second_stage_pair_def phase3_overflow_def Let_def split: prod.splits if_splits)

lemma second_pair_forced:
  "forceSpacing cfg \<Longrightarrow> pairNotDone t \<Longrightarrow> \<not> phase3_overflow ops me ms t \<Longrightarrow>
   (let t' = fst (snd (second_stage_pair cfg ops me ms i t)) in
      \<not> pairNotDone t' \<and> \<not> singleNotDone t' \<and> alignedAsPair (result0 t')
      \<and> fromAlignTogether (result0 t') = (fst (status (result0 t')) \<noteq> NotFound))"
  by (cases "align_phase_3 ops (aligner t) me (secondaryResultBufferSize t) (nSecondaryResults t)
            (resultSecondary t) ms (popularSeedsSkipped t)")
     (simp add: second_stage_pair_def phase3_overflow_def Let_def split: prod.splits)

lemma third_read_frame:
  "third_stage_read cfg ops me ms i r sa t = (ok, sa', t', cs) \<Longrightarrow>
     pairNotDone t' = pairNotDone t \<and> singleNotDone t' = singleNotDone t
     \<and> pairedReads t' = pairedReads t \<and> aligner t' = aligner t
     \<and> resultSecondary t' = resultSecondary t \<and> popularSeedsSkipped t' = popularSeedsSkipped t
     \<and> nextLoci t' = nextLoci t \<and> next_tracker t' = next_tracker t
     \<and> secondaryResultBufferSize t' = secondaryResultBufferSize t
     \<and> singleSecondaryBufferSize t' = singleSecondaryBufferSize t"
  by (auto simp add: third_stage_read_def resultCount_assign_def Let_def split: prod.splits if_splits)

lemma third_read_overflow:
  "third_stage_read cfg ops me ms i r sa t = (False, sa', t', cs) \<Longrightarrow>
     nSecondaryResults t' = 0
     \<and> nSingleEndSecondaryResultsForFirstRead t' = singleSecondaryBufferSize t + 1
     \<and> nSingleEndSecondaryResultsForSecondRead t' = 0"
  by (auto simp add: third_stage_read_def resultCount_assign_def Let_def split: prod.splits if_splits)

lemma third_read_calls:
  "third_stage_read cfg ops me ms i r sa t = (ok, sa', t', cs) \<Longrightarrow>
     c \<in> set cs \<Longrightarrow> c = SingleAlignRead i r"
  by (auto simp add: third_stage_read_def resultCount_assign_def Let_def split: prod.splits if_splits)

lemma third_pair_idle:
  "\<not> singleNotDone t \<Longrightarrow> third_stage_pair cfg ops me ms i sa t = (True, sa, t, [])"
  by (simp add: third_stage_pair_def)

lemma third_pair_flags:
  "pairNotDone (fst (snd (snd (third_stage_pair cfg ops me ms i sa t)))) = pairNotDone t
   \<and> (singleNotDone (fst (snd (snd (third_stage_pair cfg ops me ms i sa t)))) \<longrightarrow> singleNotDone t)"
proof (cases "singleNotDone t")
  case False
  then show ?thesis by (simp add: third_pair_idle)
next
  case True
  obtain ok0 sa0 t0 c0 where r0: "third_stage_read cfg ops me ms i 0 sa t = (ok0, sa0, t0, c0)"
    by (cases "third_stage_read cfg ops me ms i 0 sa t") auto
  obtain ok1 sa1 t1 c1 where r1: "third_stage_read cfg ops me ms i 1 sa0 t0 = (ok1, sa1, t1, c1)"
    by (cases "third_stage_read cfg ops me ms i 1 sa0 t0") auto
  from True r0 r1 third_read_frame [OF r0] third_read_frame [OF r1] show ?thesis
    by (simp add: third_stage_pair_def)
qed

lemma third_pair_keep:
  "fst (third_stage_pair cfg ops me ms i sa t)
     = (\<not> singleNotDone (fst (snd (snd (third_stage_pair cfg ops me ms i sa t)))))"
proof (cases "singleNotDone t")
  case False
  then show ?thesis by (simp add: third_pair_idle)
next
  case True
  obtain ok0 sa0 t0 c0 where r0: "third_stage_read cfg ops me ms i 0 sa t = (ok0, sa0, t0, c0)"
    by (cases "third_stage_read cfg ops me ms i 0 sa t") auto
  obtain ok1 sa1 t1 c1 where r1: "third_stage_read cfg ops me ms i 1 sa0 t0 = (ok1, sa1, t1, c1)"
    by (cases "third_stage_read cfg ops me ms i 1 sa0 t0") auto
  from True r0 r1 third_read_frame [OF r0] third_read_frame [OF r1] show ?thesis
    by (simp add: third_stage_pair_def)
qed

lemma third_pair_calls:
  assumes "c \<in> set (snd (snd (snd (third_stage_pair cfg ops me ms i sa t))))"
  shows "(\<exists>r. c = SingleAlignRead i r) \<and> singleNotDone t"
proof (cases "singleNotDone t")
  case False
  with assms show ?thesis by (simp add: third_pair_idle)
next
  case True
  obtain ok0 sa0 t0 c0 where r0: "third_stage_read cfg ops me ms i 0 sa t = (ok0, sa0, t0, c0)"
    by (cases "third_stage_read cfg ops me ms i 0 sa t") auto
  obtain ok1 sa1 t1 c1 where r1: "third_stage_read cfg ops me ms i 1 sa0 t0 = (ok1, sa1, t1, c1)"
    by (cases "third_stage_read cfg ops me ms i 1 sa0 t0") auto
  from assms True r0 r1 have "c \<in> set c0 \<or> c \<in> set c1"
    by (auto simp add: third_stage_pair_def split: if_splits)
  with third_read_calls [OF r0] third_read_calls [OF r1] True show ?thesis by blast
qed

lemma third_pair_overflow:
  assumes "singleNotDone (fst (snd (snd (third_stage_pair cfg ops me ms i sa t))))"
  shows "(let t' = fst (snd (snd (third_stage_pair cfg ops me ms i sa t))) in
     pairNotDone t' = pairNotDone t \<and> singleNotDone t' = singleNotDone t
     \<and> pairedReads t' = pairedReads t \<and> aligner t' = aligner t
     \<and> resultSecondary t' = resultSecondary t \<and> popularSeedsSkipped t' = popularSeedsSkipped t
     \<and> nextLoci t' = nextLoci t \<and> next_tracker t' = next_tracker t
     \<and> secondaryResultBufferSize t' = secondaryResultBufferSize t
     \<and> singleSecondaryBufferSize t' = singleSecondaryBufferSize t
     \<and> nSecondaryResults t' = 0
     \<and> nSingleEndSecondaryResultsForFirstRead t' = singleSecondaryBufferSize t + 1
     \<and> nSingleEndSecondaryResultsForSecondRead t' = 0)"
proof -
  have sn: "singleNotDone t"
    using assms third_pair_flags [of cfg ops me ms i sa t] by simp
  obtain ok0 sa0 t0 c0 where r0: "third_stage_read cfg ops me ms i 0 sa t = (ok0, sa0, t0, c0)"
    by (cases "third_stage_read cfg ops me ms i 0 sa t") auto
  obtain ok1 sa1 t1 c1 where r1: "third_stage_read cfg ops me ms i 1 sa0 t0 = (ok1, sa1, t1, c1)"
    by (cases "third_stage_read cfg ops me ms i 1 sa0 t0") auto
  show ?thesis
  proof (cases ok0)
    case False
    with sn r0 third_read_frame [OF r0] third_read_overflow [of cfg ops me ms i 0 sa t sa0 t0 c0]
    show ?thesis by (simp add: third_stage_pair_def)
  next
    case True
    note ok0 = this
    show ?thesis
    proof (cases ok1)
      case True
      with ok0 sn r0 r1 assms show ?thesis by (simp add: third_stage_pair_def)
    next
      case False
      with ok0 sn r0 r1 third_read_frame [OF r0] third_read_frame [OF r1]
        third_read_overflow [of cfg ops me ms i 1 sa0 t0 sa1 t1 c1]
      show ?thesis by (simp add: third_stage_pair_def)
    qed
  qed
qed

subsection \<open>A whole stage\<close>

lemma retarget_flags:
  "pairNotDone (retarget ops t) = pairNotDone t" "singleNotDone (retarget ops t) = singleNotDone t"
  by (simp_all add: retarget_def)

lemma retarget_idle: "\<not> pairNotDone t \<Longrightarrow> retarget ops t = t"
  by (simp add: retarget_def)

lemma first_stage_returns:
  "n \<le> length (progressTracker st) \<Longrightarrow> \<exists>b st'. align_first_stage cfg ops n st = Some (b, st')"
  by (simp add: align_first_stage_def split: prod.splits)

lemma first_stage_result:
  assumes "align_first_stage cfg ops n st = Some (b, st')"
  shows first_stage_bound: "n \<le> length (progressTracker st)"
    and first_stage_length: "length (progressTracker st') = length (progressTracker st)"
    and first_stage_single: "singleAligner st' = singleAligner st"
    and first_stage_flag: "b = (\<forall>j<n. \<not> pairNotDone (progressTracker st ! j)
                                  \<or> both_short cfg (progressTracker st ! j))"
    and first_stage_done: "\<And>j. j < n \<Longrightarrow> progressTracker st' ! j
           = retarget ops (fst (snd (first_stage_pair cfg ops j (progressTracker st ! j))))"
    and first_stage_later: "\<And>j. n \<le> j \<Longrightarrow> progressTracker st' ! j = progressTracker st ! j"
    and first_stage_calls: "calls st' = calls st
           @ concat (map (\<lambda>j. snd (snd (first_stage_pair cfg ops j (progressTracker st ! j)))) [0..<n])
           @ map (\<lambda>j. AlignPhase2ToTargetLoc j clusterTargetLoc)
               (filter (\<lambda>j. pairNotDone (progressTracker st' ! j)) [0..<n])"
proof -
  from assms show bound: "n \<le> length (progressTracker st)"
    by (simp add: align_first_stage_def split: if_splits)
  define s1 where "s1 = snd (for_loop (tracker_step (first_stage_pair cfg ops)) n (True, st))"
  from assms bound have b: "b = fst (for_loop (tracker_step (first_stage_pair cfg ops)) n (True, st))"
    and st': "st' = for_loop (first_stage_target_body ops) n s1"
    by (auto simp add: align_first_stage_def first_stage_body_step s1_def split: prod.splits)
  have len1: "length (progressTracker s1) = length (progressTracker st)"
    unfolding s1_def by (rule step_length)
  show "length (progressTracker st') = length (progressTracker st)"
    unfolding st' by (simp add: target_length len1)
  show "singleAligner st' = singleAligner st"
    unfolding st' by (simp add: target_single s1_def step_single)
  show "b = (\<forall>j<n. \<not> pairNotDone (progressTracker st ! j) \<or> both_short cfg (progressTracker st ! j))"
    unfolding b by (simp add: step_flag first_pair_keep)
  show dn: "progressTracker st' ! j
           = retarget ops (fst (snd (first_stage_pair cfg ops j (progressTracker st ! j))))"
    if "j < n" for j
    unfolding st' using that bound len1
    by (simp add: target_done s1_def step_done)
  show "progressTracker st' ! j = progressTracker st ! j" if "n \<le> j" for j
    unfolding st' using that by (simp add: target_later s1_def step_later)
  have "filter (\<lambda>j. pairNotDone (progressTracker s1 ! j)) [0..<n]
          = filter (\<lambda>j. pairNotDone (progressTracker st' ! j)) [0..<n]"
  proof (rule filter_cong [OF refl])
    fix j assume "j \<in> set [0..<n]"
    then have j: "j < n" by simp
    with bound have "progressTracker s1 ! j = fst (snd (first_stage_pair cfg ops j (progressTracker st ! j)))"
      unfolding s1_def by (simp add: step_done)
    with dn [OF j] show "pairNotDone (progressTracker s1 ! j) = pairNotDone (progressTracker st' ! j)"
      by (simp add: retarget_flags)
  qed
  then show "calls st' = calls st
           @ concat (map (\<lambda>j. snd (snd (first_stage_pair cfg ops j (progressTracker st ! j)))) [0..<n])
           @ map (\<lambda>j. AlignPhase2ToTargetLoc j clusterTargetLoc)
               (filter (\<lambda>j. pairNotDone (progressTracker st' ! j)) [0..<n])"
    unfolding st' by (simp add: target_calls s1_def step_calls)
qed

lemma second_stage_returns:
  "n \<le> length (progressTracker st) \<Longrightarrow> \<exists>b st'. align_second_stage cfg ops n me ms st = Some (b, st')"
  by (cases "for_loop (second_stage_body cfg ops me ms) n (True, st)")
     (simp add: align_second_stage_def)

lemma second_stage_result:
  assumes "align_second_stage cfg ops n me ms st = Some (b, st')"
  shows second_stage_bound: "n \<le> length (progressTracker st)"
    and second_stage_length: "length (progressTracker st') = length (progressTracker st)"
    and second_stage_single: "singleAligner st' = singleAligner st"
    and second_stage_flag: "b = (\<forall>j<n. \<not> pairNotDone (progressTracker st' ! j))"
    and second_stage_done: "\<And>j. j < n \<Longrightarrow> progressTracker st' ! j
           = fst (snd (second_stage_pair cfg ops me ms j (progressTracker st ! j)))"
    and second_stage_later: "\<And>j. n \<le> j \<Longrightarrow> progressTracker st' ! j = progressTracker st ! j"
    and second_stage_calls: "calls st' = calls st
           @ concat (map (\<lambda>j. snd (snd (second_stage_pair cfg ops me ms j (progressTracker st ! j)))) [0..<n])"
proof -
  from assms show bound: "n \<le> length (progressTracker st)"
    by (simp add: align_second_stage_def split: if_splits)
  from assms bound
  have b: "b = fst (for_loop (tracker_step (second_stage_pair cfg ops me ms)) n (True, st))"
    and st': "st' = snd (for_loop (tracker_step (second_stage_pair cfg ops me ms)) n (True, st))"
    by (auto simp add: align_second_stage_def second_stage_body_step)
  show "length (progressTracker st') = length (progressTracker st)"
    unfolding st' by (rule step_length)
  show "singleAligner st' = singleAligner st"
    unfolding st' by (rule step_single)
  show dn: "progressTracker st' ! j
           = fst (snd (second_stage_pair cfg ops me ms j (progressTracker st ! j)))"
    if "j < n" for j
    unfolding st' using that bound by (simp add: step_done)
  show "b = (\<forall>j<n. \<not> pairNotDone (progressTracker st' ! j))"
    unfolding b using dn by (simp add: step_flag second_pair_keep)
  show "progressTracker st' ! j = progressTracker st ! j" if "n \<le> j" for j
    unfolding st' using that by (simp add: step_later)
  show "calls st' = calls st
           @ concat (map (\<lambda>j. snd (snd (second_stage_pair cfg ops me ms j (progressTracker st ! j)))) [0..<n])"
    unfolding st' by (simp add: step_calls)
qed

lemma third_loop_flag:
  "n \<le> length (progressTracker st) \<Longrightarrow>
   fst (for_loop (third_stage_body cfg ops me ms) n (True, st))
     = (\<forall>j<n. \<not> singleNotDone
           (progressTracker (snd (for_loop (third_stage_body cfg ops me ms) n (True, st))) ! j))"
proof (induction n)
  case 0
  then show ?case by simp
next
  case (Suc n)
  obtain b' st' where loop: "for_loop (third_stage_body cfg ops me ms) n (True, st) = (b', st')"
    by (cases "for_loop (third_stage_body cfg ops me ms) n (True, st)")
  have len: "length (progressTracker st') = length (progressTracker st)"
    using third_length [of cfg ops me ms n True st] loop by simp
  from Suc loop have IH: "b' = (\<forall>j<n. \<not> singleNotDone (progressTracker st' ! j))" by simp
  from Suc.prems len have n: "n < length (progressTracker st')" by simp
  show ?case
    using loop n third_pair_keep [of cfg ops me ms n "singleAligner st'" "progressTracker st' ! n"]
    by (auto simp add: third_stage_body_pair IH less_Suc_eq nth_list_update)
qed

lemma third_loop_calls:
  "\<exists>cs. calls (snd (for_loop (third_stage_body cfg ops me ms) n (b, st))) = calls st @ cs
      \<and> (\<forall>c\<in>set cs. \<exists>j r. c = SingleAlignRead j r \<and> j < n \<and> singleNotDone (progressTracker st ! j))"
proof (induction n)
  case 0
  then show ?case by simp
next
  case (Suc n)
  obtain b' st' where loop: "for_loop (third_stage_body cfg ops me ms) n (b, st) = (b', st')"
    by (cases "for_loop (third_stage_body cfg ops me ms) n (b, st)")
  have here: "progressTracker st' ! n = progressTracker st ! n"
    using third_later [of n n cfg ops me ms b st] loop by simp
  from Suc loop obtain cs where cs: "calls st' = calls st @ cs"
    "\<forall>c\<in>set cs. \<exists>j r. c = SingleAlignRead j r \<and> j < n \<and> singleNotDone (progressTracker st ! j)"
    by auto
  define ds where "ds = snd (snd (snd (third_stage_pair cfg ops me ms n (singleAligner st')
                                          (progressTracker st ! n))))"
  have ds: "\<forall>c\<in>set ds. \<exists>r. c = SingleAlignRead n r \<and> singleNotDone (progressTracker st ! n)"
    unfolding ds_def
    using third_pair_calls [of _ cfg ops me ms n "singleAligner st'" "progressTracker st ! n"]
    by auto
  have "calls (snd (for_loop (third_stage_body cfg ops me ms) (Suc n) (b, st))) = calls st @ (cs @ ds)"
    using loop here cs(1) by (simp add: third_stage_body_pair ds_def)
  moreover have "\<forall>c\<in>set (cs @ ds). \<exists>j r. c = SingleAlignRead j r \<and> j < Suc n
                    \<and> singleNotDone (progressTracker st ! j)"
    using cs(2) ds by (auto simp add: less_Suc_eq)
  ultimately show ?case by blast
qed

lemma third_stage_returns:
  "n \<le> length (progressTracker st) \<Longrightarrow> \<exists>b st'. align_third_stage cfg ops n me ms st = Some (b, st')"
  by (cases "for_loop (third_stage_body cfg ops me ms) n (True, st)")
     (simp add: align_third_stage_def)

lemma third_stage_result:
  assumes "align_third_stage cfg ops n me ms st = Some (b, st')"
  shows third_stage_bound: "n \<le> length (progressTracker st)"
    and third_stage_length: "length (progressTracker st') = length (progressTracker st)"
    and third_stage_flag: "b = (\<forall>j<n. \<not> singleNotDone (progressTracker st' ! j))"
    and third_stage_later: "\<And>j. n \<le> j \<Longrightarrow> progressTracker st' ! j = progressTracker st ! j"
    and third_stage_calls: "\<exists>cs. calls st' = calls st @ cs
      \<and> (\<forall>c\<in>set cs. \<exists>j r. c = SingleAlignRead j r \<and> j < n \<and> singleNotDone (progressTracker st ! j))"
proof -
  from assms show bound: "n \<le> length (progressTracker st)"
    by (simp add: align_third_stage_def split: if_splits)
  from assms bound
  have b: "b = fst (for_loop (third_stage_body cfg ops me ms) n (True, st))"
    and st': "st' = snd (for_loop (third_stage_body cfg ops me ms) n (True, st))"
    by (auto simp add: align_third_stage_def)
  show "length (progressTracker st') = length (progressTracker st)"
    unfolding st' by (rule third_length)
  show "b = (\<forall>j<n. \<not> singleNotDone (progressTracker st' ! j))"
    unfolding b st' using bound by (rule third_loop_flag)
  show "progressTracker st' ! j = progressTracker st ! j" if "n \<le> j" for j
    unfolding st' using that by (rule third_later)
  show "\<exists>cs. calls st' = calls st @ cs
      \<and> (\<forall>c\<in>set cs. \<exists>j r. c = SingleAlignRead j r \<and> j < n \<and> singleNotDone (progressTracker st ! j))"
    unfolding st' by (rule third_loop_calls)
qed

lemma third_stage_rel:
  assumes "align_third_stage cfg ops n me ms st = Some (b, st')"
    and "\<And>sa t. Q t (fst (snd (snd (third_stage_pair cfg ops me ms j sa t))))"
    and "j < n"
  shows "Q (progressTracker st ! j) (progressTracker st' ! j)"
proof -
  from assms(1) have bound: "n \<le> length (progressTracker st)"
    by (rule third_stage_bound)
  from assms(1) bound
  have st': "st' = snd (for_loop (third_stage_body cfg ops me ms) n (True, st))"
    by (auto simp add: align_third_stage_def)
  show ?thesis
    unfolding st' using assms(2) assms(3) bound by (rule third_done)
qed

subsection \<open>Traces and flags across a stage\<close>

lemma calls_for_append_other:
  "\<forall>c\<in>set cs. call_pair c \<noteq> i \<Longrightarrow> calls_for i (xs @ cs) = calls_for i xs"
  by (simp add: calls_for_def)

lemma count_list_append_other:
  "x \<notin> set cs \<Longrightarrow> count_list (xs @ cs) x = count_list xs x"
  by (induction xs) simp_all

lemma count_list_concat_upt:
  assumes "\<And>j. count_list (f j) x = (if j = i \<and> P then 1 else 0)"
  shows "count_list (concat (map f [0..<n])) x = (if i < n \<and> P then 1 else 0)"
  by (induction n) (auto simp add: assms)

lemma short_not_long: "both_short cfg t \<Longrightarrow> \<not> both_long cfg t"
  by (auto simp add: both_short_def both_long_def)

lemma first_stage_resolved:
  assumes "align_first_stage cfg ops n st = Some (b, st')" "j < n"
    "\<not> pairNotDone (progressTracker st ! j)"
  shows "progressTracker st' ! j = progressTracker st ! j"
  using first_stage_done [OF assms(1) assms(2)] assms(3)
  by (simp add: first_pair_idle retarget_idle)

lemma first_stage_flags:
  assumes "align_first_stage cfg ops n st = Some (b, st')"
  shows "(pairNotDone (progressTracker st' ! j) \<longrightarrow> pairNotDone (progressTracker st ! j))
       \<and> (singleNotDone (progressTracker st' ! j) \<longrightarrow> singleNotDone (progressTracker st ! j))"
proof (cases "j < n")
  case True
  from first_stage_done [OF assms True] first_pair_flags [of cfg ops j "progressTracker st ! j"]
  show ?thesis by (simp add: retarget_flags)
next
  case False
  with first_stage_later [OF assms, of j] show ?thesis by simp
qed

lemma first_stage_short:
  assumes "align_first_stage cfg ops n st = Some (b, st')" "j < n"
    "pairNotDone (progressTracker st ! j)" "both_short cfg (progressTracker st ! j)"
  shows "progressTracker st' ! j =
     (progressTracker st ! j)\<lparr>result0 := (result0 (progressTracker st ! j))\<lparr>
            location := (0, 0), mapq := (0, 0), score := (0, 0),
            status := (NotFound, NotFound),
            alignedAsPair := False, fromAlignTogether := False,
            nanosInAlignTogether := 0, nLVCalls := 0, nSmallHits := 0\<rparr>,
         pairNotDone := False, singleNotDone := False\<rparr>"
  using first_stage_done [OF assms(1) assms(2)] assms(3) assms(4)
  by (simp add: first_pair_short retarget_idle)

lemma first_stage_calls_pairs:
  assumes "align_first_stage cfg ops n st = Some (b, st')"
  shows "\<exists>cs. calls st' = calls st @ cs
     \<and> (\<forall>c\<in>set cs. call_pair c < n \<and> pairNotDone (progressTracker st ! call_pair c)
            \<and> \<not> both_short cfg (progressTracker st ! call_pair c)
            \<and> \<not> is_scoring_call c \<and> \<not> is_single_call c)"
proof -
  define A where "A = concat (map (\<lambda>j. snd (snd (first_stage_pair cfg ops j (progressTracker st ! j)))) [0..<n])"
  define B where "B = map (\<lambda>j. AlignPhase2ToTargetLoc j clusterTargetLoc)
               (filter (\<lambda>j. pairNotDone (progressTracker st' ! j)) [0..<n])"
  have eq: "calls st' = calls st @ (A @ B)"
    using first_stage_calls [OF assms] by (simp add: A_def B_def)
  have "call_pair c < n \<and> pairNotDone (progressTracker st ! call_pair c)
            \<and> \<not> both_short cfg (progressTracker st ! call_pair c)
            \<and> \<not> is_scoring_call c \<and> \<not> is_single_call c" if "c \<in> set (A @ B)" for c
  proof (cases "c \<in> set A")
    case True
    then obtain j where j: "j < n" "c \<in> set (snd (snd (first_stage_pair cfg ops j (progressTracker st ! j))))"
      by (auto simp add: A_def)
    from first_pair_calls [OF j(2)] j(1) short_not_long show ?thesis by auto
  next
    case False
    with that obtain j where j: "j < n" "pairNotDone (progressTracker st' ! j)"
      "c = AlignPhase2ToTargetLoc j clusterTargetLoc"
      by (auto simp add: B_def)
    from j(2) first_stage_flags [OF assms, of j] have p: "pairNotDone (progressTracker st ! j)"
      by simp
    have "\<not> both_short cfg (progressTracker st ! j)"
    proof
      assume "both_short cfg (progressTracker st ! j)"
      from first_stage_short [OF assms j(1) p this] j(2) show False by simp
    qed
    with j p show ?thesis by simp
  qed
  with eq show ?thesis by blast
qed

lemma second_stage_resolved:
  assumes "align_second_stage cfg ops n me ms st = Some (b, st')"
    "\<not> pairNotDone (progressTracker st ! j)"
  shows "progressTracker st' ! j = progressTracker st ! j"
proof (cases "j < n")
  case True
  from second_stage_done [OF assms(1) True] assms(2) show ?thesis
    by (simp add: second_pair_idle)
next
  case False
  with second_stage_later [OF assms(1), of j] show ?thesis by simp
qed

lemma second_stage_flags:
  assumes "align_second_stage cfg ops n me ms st = Some (b, st')"
  shows "(pairNotDone (progressTracker st' ! j) \<longrightarrow> pairNotDone (progressTracker st ! j))
       \<and> (singleNotDone (progressTracker st' ! j) \<longrightarrow> singleNotDone (progressTracker st ! j))"
proof (cases "j < n")
  case True
  from second_stage_done [OF assms True]
    second_pair_flags [of cfg ops me ms j "progressTracker st ! j"]
  show ?thesis by simp
next
  case False
  with second_stage_later [OF assms, of j] show ?thesis by simp
qed

lemma second_stage_calls_pairs:
  assumes "align_second_stage cfg ops n me ms st = Some (b, st')"
  shows "\<exists>cs. calls st' = calls st @ cs
     \<and> (\<forall>c\<in>set cs. call_pair c < n \<and> pairNotDone (progressTracker st ! call_pair c)
            \<and> is_scoring_call c)"
proof -
  define A where "A = concat (map (\<lambda>j. snd (snd (second_stage_pair cfg ops me ms j (progressTracker st ! j)))) [0..<n])"
  have eq: "calls st' = calls st @ A"
    using second_stage_calls [OF assms] by (simp add: A_def)
  have "call_pair c < n \<and> pairNotDone (progressTracker st ! call_pair c) \<and> is_scoring_call c"
    if "c \<in> set A" for c
  proof -
    from that obtain j where j: "j < n"
      "c \<in> set (snd (snd (second_stage_pair cfg ops me ms j (progressTracker st ! j))))"
      by (auto simp add: A_def)
    from second_pair_calls [OF j(2)] j(1) show ?thesis by auto
  qed
  with eq show ?thesis by blast
qed

lemma third_stage_resolved:
  assumes "align_third_stage cfg ops n me ms st = Some (b, st')"
    "\<not> singleNotDone (progressTracker st ! j)"
  shows "progressTracker st' ! j = progressTracker st ! j"
proof (cases "j < n")
  case True
  have "\<not> singleNotDone (progressTracker st ! j) \<longrightarrow> progressTracker st' ! j = progressTracker st ! j"
    by (rule third_stage_rel [OF assms(1) _ True]) (simp add: third_pair_idle)
  with assms(2) show ?thesis by simp
next
  case False
  with third_stage_later [OF assms(1), of j] show ?thesis by simp
qed

lemma third_stage_flags:
  assumes "align_third_stage cfg ops n me ms st = Some (b, st')"
  shows "pairNotDone (progressTracker st' ! j) = pairNotDone (progressTracker st ! j)
       \<and> (singleNotDone (progressTracker st' ! j) \<longrightarrow> singleNotDone (progressTracker st ! j))"
proof (cases "j < n")
  case True
  show ?thesis
    by (rule third_stage_rel [OF assms _ True]) (rule third_pair_flags)
next
  case False
  with third_stage_later [OF assms, of j] show ?thesis by simp
qed

lemma align_returns:
  assumes "n \<le> length (progressTracker st)"
  shows "\<exists>fin st'. align cfg ops n me ms st = Some (fin, st')"
proof -
  from first_stage_returns [OF assms] obtain b1 s1
    where f: "align_first_stage cfg ops n st = Some (b1, s1)" by blast
  from assms first_stage_length [OF f] have l1: "n \<le> length (progressTracker s1)" by simp
  from second_stage_returns [OF l1] obtain b2 s2
    where s: "align_second_stage cfg ops n me ms s1 = Some (b2, s2)" by blast
  from l1 second_stage_length [OF s] have l2: "n \<le> length (progressTracker s2)" by simp
  from third_stage_returns [OF l2] obtain b3 s3
    where t: "align_third_stage cfg ops n me ms s2 = Some (b3, s3)" by blast
  from f s t show ?thesis by (auto simp add: align_def)
qed

lemma align_cases:
  assumes "align cfg ops n me ms st = Some (fin, st')"
  obtains (stage1) "align_first_stage cfg ops n st = Some (True, st')" "fin"
  | (stage2) s1 where "align_first_stage cfg ops n st = Some (False, s1)"
      "align_second_stage cfg ops n me ms s1 = Some (False, st')" "\<not> fin"
  | (stage3) s1 s2 where "align_first_stage cfg ops n st = Some (False, s1)"
      "align_second_stage cfg ops n me ms s1 = Some (True, s2)"
      "align_third_stage cfg ops n me ms s2 = Some (fin, st')"
  using assms
  by (auto simp add: align_def split: option.splits if_splits)

subsection \<open>The claims\<close>

lemmas run_defs =
  align_def align_first_stage_def align_second_stage_def align_third_stage_def
  first_stage_body_def first_stage_pair_def first_stage_target_body_def
  second_stage_body_def second_stage_pair_def
  third_stage_body_def third_stage_pair_def third_stage_read_def resultCount_assign_def
  mate_def set_mate_def clusterTargetLoc_def getDataLength_def Let_def
  cfg30_def scripted_engines_def scripted_single_def barcode_def fresh_tracker_def
  fresh_result_def read_of_length_def

lemma run_result: "map_option fst r = Some b \<Longrightarrow> r = Some (b, snd (the r))"
  by (cases r) auto

text \<open>
  Claim C6.  The entry point runs stage 1 and, when stage 1 reports the barcode finished,
  returns finished with the state stage 1 left, no scoring or single-end call having been
  made; otherwise it runs stage 2 and, when stage 2 reports unfinished, returns unfinished
  with the state stage 2 left, stage 3 not being run in that call: the single-end engine
  is as it was and no call of it has been made; otherwise its result is the result of
  stage 3.
\<close>
theorem align_stage_order:
  "(align_first_stage cfg ops n st = Some (True, s1)
      \<longrightarrow> align cfg ops n me ms st = Some (True, s1)
        \<and> filter is_scoring_call (calls s1) = filter is_scoring_call (calls st)
        \<and> filter is_single_call (calls s1) = filter is_single_call (calls st))
   \<and> (align_first_stage cfg ops n st = Some (False, s1)
        \<and> align_second_stage cfg ops n me ms s1 = Some (False, s2)
      \<longrightarrow> align cfg ops n me ms st = Some (False, s2)
        \<and> singleAligner s2 = singleAligner st
        \<and> filter is_single_call (calls s2) = filter is_single_call (calls st))
   \<and> (align_first_stage cfg ops n st = Some (False, s1)
        \<and> align_second_stage cfg ops n me ms s1 = Some (True, s2)
      \<longrightarrow> align cfg ops n me ms st = align_third_stage cfg ops n me ms s2)"
proof -
  have one: "filter is_scoring_call (calls s) = filter is_scoring_call (calls st)
        \<and> filter is_single_call (calls s) = filter is_single_call (calls st)
        \<and> singleAligner s = singleAligner st"
    if f: "align_first_stage cfg ops n st = Some (b, s)" for b s
  proof -
    from first_stage_calls_pairs [OF f] obtain cs where "calls s = calls st @ cs"
      "\<forall>c\<in>set cs. \<not> is_scoring_call c \<and> \<not> is_single_call c" by blast
    with first_stage_single [OF f] show ?thesis by (simp add: filter_empty_conv)
  qed
  have two: "filter is_single_call (calls s') = filter is_single_call (calls s)
        \<and> singleAligner s' = singleAligner s"
    if s: "align_second_stage cfg ops n me ms s = Some (b, s')" for b s s'
  proof -
    from second_stage_calls_pairs [OF s] obtain cs where cs: "calls s' = calls s @ cs"
      "\<forall>c\<in>set cs. is_scoring_call c" by blast
    have "\<not> is_single_call c" if "is_scoring_call c" for c
      using that by (cases c) simp_all
    with cs second_stage_single [OF s] show ?thesis by (simp add: filter_empty_conv)
  qed
  show ?thesis
    using one [of True s1] one [of False s1] two [of s1 False s2]
    by (auto simp add: align_def split: option.splits)
qed

theorem align_stage_order_witness:
  "align (cfg30 False) scripted_engines 1 0 10 short_barcode
     = align_first_stage (cfg30 False) scripted_engines 1 short_barcode
   \<and> fst (the (align (cfg30 False) scripted_engines 1 0 10 short_barcode))
   \<and> align (cfg30 False) scripted_engines 1 0 10 overflow_barcode
     = align_second_stage (cfg30 False) scripted_engines 1 0 10
         (snd (the (align_first_stage (cfg30 False) scripted_engines 1 overflow_barcode)))
   \<and> \<not> fst (the (align (cfg30 False) scripted_engines 1 0 10 overflow_barcode))
   \<and> align (cfg30 False) scripted_engines 1 0 10 chimera_barcode
     = align_third_stage (cfg30 False) scripted_engines 1 0 10
         (snd (the (align_second_stage (cfg30 False) scripted_engines 1 0 10
            (snd (the (align_first_stage (cfg30 False) scripted_engines 1 chimera_barcode))))))"
proof -
  let ?C = "cfg30 False" and ?E = scripted_engines
  define a1 where "a1 = snd (the (align_first_stage ?C ?E 1 short_barcode))"
  define b1 where "b1 = snd (the (align_first_stage ?C ?E 1 overflow_barcode))"
  define b2 where "b2 = snd (the (align_second_stage ?C ?E 1 0 10 b1))"
  define c1 where "c1 = snd (the (align_first_stage ?C ?E 1 chimera_barcode))"
  define c2 where "c2 = snd (the (align_second_stage ?C ?E 1 0 10 c1))"
  have a: "align_first_stage ?C ?E 1 short_barcode = Some (True, a1)"
    unfolding a1_def by (rule run_result) (simp add: run_defs short_barcode_def)
  have b: "align_first_stage ?C ?E 1 overflow_barcode = Some (False, b1)"
    unfolding b1_def by (rule run_result) (simp add: run_defs overflow_barcode_def)
  have b': "align_second_stage ?C ?E 1 0 10 b1 = Some (False, b2)"
    unfolding b2_def b1_def by (rule run_result) (simp add: run_defs overflow_barcode_def)
  have c: "align_first_stage ?C ?E 1 chimera_barcode = Some (False, c1)"
    unfolding c1_def by (rule run_result) (simp add: run_defs chimera_barcode_def)
  have c': "align_second_stage ?C ?E 1 0 10 c1 = Some (True, c2)"
    unfolding c2_def c1_def by (rule run_result) (simp add: run_defs chimera_barcode_def)
  from a b b' c c' align_stage_order [of ?C ?E 1 short_barcode a1 0 10]
    align_stage_order [of ?C ?E 1 overflow_barcode b1 0 10 b2]
    align_stage_order [of ?C ?E 1 chimera_barcode c1 0 10 c2]
  have "align ?C ?E 1 0 10 short_barcode = Some (True, a1)"
    "align ?C ?E 1 0 10 overflow_barcode = Some (False, b2)"
    "align ?C ?E 1 0 10 chimera_barcode = align_third_stage ?C ?E 1 0 10 c2"
    by blast+
  with a b b' c c' show ?thesis
    unfolding a1_def [symmetric] b1_def [symmetric] b2_def [symmetric]
      c1_def [symmetric] c2_def [symmetric]
    by simp
qed

text \<open>
  Claim C5.  When the paired engine reports a secondary-buffer overflow for a pair that
  stage 2 processes, stage 2 records the buffer capacity plus one as the pair's
  \<open>nSecondaryResults\<close>, leaves its two stage flags (and the capacity) as they were, and
  reports the barcode not finished.  The witness is the scenario with capacity 2 and 5
  candidates: the recorded count is 3.
\<close>
theorem stage2_overflow_sentinel:
  assumes "n \<le> length (progressTracker st)" and "i < n"
    and "pairNotDone (progressTracker st ! i)"
    and "phase3_overflow ops me ms (progressTracker st ! i)"
  shows "\<exists>st'. align_second_stage cfg ops n me ms st = Some (False, st')
     \<and> nSecondaryResults (progressTracker st' ! i) = secondaryResultBufferSize (progressTracker st ! i) + 1
     \<and> secondaryResultBufferSize (progressTracker st' ! i) = secondaryResultBufferSize (progressTracker st ! i)
     \<and> pairNotDone (progressTracker st' ! i)
     \<and> singleNotDone (progressTracker st' ! i) = singleNotDone (progressTracker st ! i)"
proof -
  from second_stage_returns [OF assms(1)] obtain b st'
    where s: "align_second_stage cfg ops n me ms st = Some (b, st')" by blast
  have t: "progressTracker st' ! i = fst (snd (second_stage_pair cfg ops me ms i (progressTracker st ! i)))"
    by (rule second_stage_done [OF s assms(2)])
  have facts: "nSecondaryResults (progressTracker st' ! i) = secondaryResultBufferSize (progressTracker st ! i) + 1
     \<and> secondaryResultBufferSize (progressTracker st' ! i) = secondaryResultBufferSize (progressTracker st ! i)
     \<and> pairNotDone (progressTracker st' ! i)
     \<and> singleNotDone (progressTracker st' ! i) = singleNotDone (progressTracker st ! i)"
    unfolding t using assms(3)
    by (simp add: second_pair_overflow [OF assms(3) assms(4)] split: prod.splits)
  with second_stage_flag [OF s] assms(2) have "\<not> b" by auto
  with s facts show ?thesis by simp
qed

theorem stage2_overflow_sentinel_witness:
  "\<exists>st'. align_second_stage (cfg30 False) scripted_engines 1 0 10 overflow_barcode = Some (False, st')
     \<and> secondaryResultBufferSize (progressTracker overflow_barcode ! 0) = 2
     \<and> candidates (aligner (progressTracker overflow_barcode ! 0)) = 5
     \<and> nSecondaryResults (progressTracker st' ! 0) = 3
     \<and> pairNotDone (progressTracker st' ! 0) \<and> singleNotDone (progressTracker st' ! 0)"
  using stage2_overflow_sentinel [of 1 overflow_barcode 0 scripted_engines 0 10 "cfg30 False"]
  by (auto simp add: phase3_overflow_def overflow_barcode_def barcode_def fresh_tracker_def
      scripted_engines_def)

text \<open>
  Claim C7.  A pair flagged \<open>pairNotDone\<close> whose two mates are both shorter than the
  minimum read length is finalised by the invocation as NotFound/NotFound, not aligned as a
  pair, with zero score, mapq and location for both mates, and with both stage flags
  cleared; the trace gains no engine call for that pair; and a barcode whose pairs are all
  of this kind is reported finished.
\<close>
theorem short_pairs_resolved_unsearched:
  fixes st :: "('e, 'a, 'l) ClusterAligner"
  assumes "n \<le> length (progressTracker st)" and "i < n"
    and "pairNotDone (progressTracker st ! i)"
    and "both_short cfg (progressTracker st ! i)"
  shows "\<exists>fin st'. align cfg ops n me ms st = Some (fin, st')
     \<and> status (result0 (progressTracker st' ! i)) = (NotFound, NotFound)
     \<and> \<not> alignedAsPair (result0 (progressTracker st' ! i))
     \<and> score (result0 (progressTracker st' ! i)) = (0, 0)
     \<and> mapq (result0 (progressTracker st' ! i)) = (0, 0)
     \<and> location (result0 (progressTracker st' ! i)) = (0, 0)
     \<and> \<not> pairNotDone (progressTracker st' ! i) \<and> \<not> singleNotDone (progressTracker st' ! i)
     \<and> calls_for i (calls st') = calls_for i (calls st)
     \<and> ((\<forall>j<n. both_short cfg (progressTracker st ! j)) \<longrightarrow> fin)"
proof -
  define R :: "bool \<times> ('e, 'a, 'l) ClusterAligner \<Rightarrow> bool" where
    "R = (\<lambda>x. status (result0 (progressTracker (snd x) ! i)) = (NotFound, NotFound)
     \<and> \<not> alignedAsPair (result0 (progressTracker (snd x) ! i))
     \<and> score (result0 (progressTracker (snd x) ! i)) = (0, 0)
     \<and> mapq (result0 (progressTracker (snd x) ! i)) = (0, 0)
     \<and> location (result0 (progressTracker (snd x) ! i)) = (0, 0)
     \<and> \<not> pairNotDone (progressTracker (snd x) ! i) \<and> \<not> singleNotDone (progressTracker (snd x) ! i)
     \<and> calls_for i (calls (snd x)) = calls_for i (calls st)
     \<and> ((\<forall>j<n. both_short cfg (progressTracker st ! j)) \<longrightarrow> fst x))"
  from align_returns [OF assms(1)] obtain fin st'
    where a: "align cfg ops n me ms st = Some (fin, st')" by blast
  have after1: "status (result0 (progressTracker s1 ! i)) = (NotFound, NotFound)
     \<and> \<not> alignedAsPair (result0 (progressTracker s1 ! i))
     \<and> score (result0 (progressTracker s1 ! i)) = (0, 0)
     \<and> mapq (result0 (progressTracker s1 ! i)) = (0, 0)
     \<and> location (result0 (progressTracker s1 ! i)) = (0, 0)
     \<and> \<not> pairNotDone (progressTracker s1 ! i) \<and> \<not> singleNotDone (progressTracker s1 ! i)
     \<and> calls_for i (calls s1) = calls_for i (calls st)
     \<and> b1 = (\<forall>j<n. \<not> pairNotDone (progressTracker st ! j) \<or> both_short cfg (progressTracker st ! j))"
    if f: "align_first_stage cfg ops n st = Some (b1, s1)" for b1 s1
  proof -
    from first_stage_calls_pairs [OF f] obtain cs where cs: "calls s1 = calls st @ cs"
      "\<forall>c\<in>set cs. \<not> both_short cfg (progressTracker st ! call_pair c)" by blast
    from cs(2) assms(4) have "\<forall>c\<in>set cs. call_pair c \<noteq> i" by auto
    from calls_for_append_other [OF this] cs(1)
    have "calls_for i (calls s1) = calls_for i (calls st)" by simp
    with first_stage_short [OF f assms(2) assms(3) assms(4)] first_stage_flag [OF f]
    show ?thesis by simp
  qed
  have after2: "progressTracker s2 ! i = progressTracker s1 ! i
     \<and> calls_for i (calls s2) = calls_for i (calls s1)"
    if s: "align_second_stage cfg ops n me ms s1 = Some (b2, s2)"
      and "\<not> pairNotDone (progressTracker s1 ! i)" for s1 b2 s2
  proof -
    from second_stage_calls_pairs [OF s] obtain cs where cs: "calls s2 = calls s1 @ cs"
      "\<forall>c\<in>set cs. pairNotDone (progressTracker s1 ! call_pair c)" by blast
    from cs(2) that(2) have "\<forall>c\<in>set cs. call_pair c \<noteq> i" by auto
    from calls_for_append_other [OF this] cs(1)
    have "calls_for i (calls s2) = calls_for i (calls s1)" by simp
    with second_stage_resolved [OF s that(2)] show ?thesis by simp
  qed
  have after3: "progressTracker s3 ! i = progressTracker s2 ! i
     \<and> calls_for i (calls s3) = calls_for i (calls s2)"
    if t: "align_third_stage cfg ops n me ms s2 = Some (b3, s3)"
      and "\<not> singleNotDone (progressTracker s2 ! i)" for s2 b3 s3
  proof -
    from third_stage_calls [OF t] obtain cs where cs: "calls s3 = calls s2 @ cs"
      "\<forall>c\<in>set cs. \<exists>j r. c = SingleAlignRead j r \<and> j < n \<and> singleNotDone (progressTracker s2 ! j)"
      by blast
    from cs(2) that(2) have "\<forall>c\<in>set cs. call_pair c \<noteq> i" by auto
    from calls_for_append_other [OF this] cs(1)
    have "calls_for i (calls s3) = calls_for i (calls s2)" by simp
    with third_stage_resolved [OF t that(2)] show ?thesis by simp
  qed
  from a have "R (fin, st')"
  proof (cases rule: align_cases)
    case stage1
    from stage1(2) after1 [OF stage1(1)]
    show ?thesis by (simp add: R_def)
  next
    case (stage2 s1)
    note one = after1 [OF stage2(1)]
    with after2 [OF stage2(2)]
    show ?thesis using assms(2) assms(3) by (auto simp add: R_def)
  next
    case (stage3 s1 s2)
    note one = after1 [OF stage3(1)]
    then have two: "progressTracker s2 ! i = progressTracker s1 ! i
       \<and> calls_for i (calls s2) = calls_for i (calls s1)"
      using after2 [OF stage3(2)] by simp
    with one have "progressTracker st' ! i = progressTracker s2 ! i
       \<and> calls_for i (calls st') = calls_for i (calls s2)"
      using after3 [OF stage3(3)] by simp
    with one two show ?thesis using assms(2) assms(3) by (auto simp add: R_def)
  qed
  with a show ?thesis unfolding R_def by (intro exI [of _ fin] exI [of _ st']) simp
qed

theorem short_pairs_resolved_unsearched_witness:
  "\<exists>st'. align (cfg30 False) scripted_engines 1 0 10 short_barcode = Some (True, st')
     \<and> getDataLength (fst (pairedReads (progressTracker short_barcode ! 0))) = 0
     \<and> getDataLength (snd (pairedReads (progressTracker short_barcode ! 0))) = 0
     \<and> status (result0 (progressTracker st' ! 0)) = (NotFound, NotFound)
     \<and> \<not> alignedAsPair (result0 (progressTracker st' ! 0))
     \<and> score (result0 (progressTracker st' ! 0)) = (0, 0)
     \<and> mapq (result0 (progressTracker st' ! 0)) = (0, 0)
     \<and> calls_for 0 (calls st') = []"
  using short_pairs_resolved_unsearched [where n = 1 and st = short_barcode and i = 0
      and cfg = "cfg30 False" and ops = scripted_engines and me = 0 and ms = 10]
  by (auto simp add: both_short_def short_barcode_def barcode_def fresh_tracker_def
      read_of_length_def getDataLength_def cfg30_def calls_for_def)

text \<open>
  Claim C9, as amended.  Stage 1 reports the barcode finished exactly when every pair below
  \<open>barcodeSize\<close> that is flagged \<open>pairNotDone\<close> on entry has both mates shorter than the
  minimum read length; and when it reports finished, no pair below \<open>barcodeSize\<close> is
  flagged \<open>pairNotDone\<close> afterwards.
\<close>
theorem first_stage_finished_iff:
  assumes "align_first_stage cfg ops n st = Some (b, st')"
  shows "b = (\<forall>i<n. \<not> pairNotDone (progressTracker st ! i) \<or> both_short cfg (progressTracker st ! i))
     \<and> (b \<longrightarrow> (\<forall>i<n. \<not> pairNotDone (progressTracker st' ! i)))"
proof -
  have "\<not> pairNotDone (progressTracker st' ! i)"
    if "i < n" "\<not> pairNotDone (progressTracker st ! i) \<or> both_short cfg (progressTracker st ! i)" for i
  proof (cases "pairNotDone (progressTracker st ! i)")
    case True
    with that first_stage_short [OF assms that(1) True] show ?thesis by simp
  next
    case False
    with first_stage_resolved [OF assms that(1) False] show ?thesis by simp
  qed
  with first_stage_flag [OF assms] show ?thesis by blast
qed

theorem first_stage_finished_iff_witness:
  "align_first_stage (cfg30 False) scripted_engines 1 short_barcode
     = Some (True, snd (the (align_first_stage (cfg30 False) scripted_engines 1 short_barcode)))
   \<and> pairNotDone (progressTracker short_barcode ! 0)
   \<and> both_short (cfg30 False) (progressTracker short_barcode ! 0)
   \<and> \<not> pairNotDone (progressTracker
          (snd (the (align_first_stage (cfg30 False) scripted_engines 1 short_barcode))) ! 0)"
proof -
  define s1 where "s1 = snd (the (align_first_stage (cfg30 False) scripted_engines 1 short_barcode))"
  have f: "align_first_stage (cfg30 False) scripted_engines 1 short_barcode = Some (True, s1)"
    unfolding s1_def by (rule run_result) (simp add: run_defs short_barcode_def)
  from first_stage_finished_iff [OF f] have "\<not> pairNotDone (progressTracker s1 ! 0)" by simp
  moreover have "pairNotDone (progressTracker short_barcode ! 0)
      \<and> both_short (cfg30 False) (progressTracker short_barcode ! 0)"
    by (simp add: both_short_def short_barcode_def barcode_def fresh_tracker_def
        read_of_length_def getDataLength_def cfg30_def)
  ultimately show ?thesis using f unfolding s1_def by simp
qed

text \<open>
  Counterexample to claim C9 as stated: for a pair whose two mates reach the minimum read length and
  for which phase 1 reports the search over, stage 1 clears \<open>pairNotDone\<close>, so that no
  pair of the barcode is flagged \<open>pairNotDone\<close> after the sweep, and still reports the
  barcode not finished.
\<close>
theorem stage1_unfinished_without_active_pair:
  "fst (the (align_first_stage (cfg30 False) scripted_engines 1 stopped_barcode)) = False
   \<and> pairNotDone (progressTracker
        (snd (the (align_first_stage (cfg30 False) scripted_engines 1 stopped_barcode))) ! 0) = False
   \<and> length (progressTracker
        (snd (the (align_first_stage (cfg30 False) scripted_engines 1 stopped_barcode)))) = 1"
  by (simp add: run_defs stopped_barcode_def)

text \<open>
  Claim C1, as amended.  One invocation of \<open>align\<close> calls \<open>align_phase_1\<close> for a pair at
  most once: exactly once when the pair is below \<open>barcodeSize\<close>, flagged \<open>pairNotDone\<close>
  on entry and both its mates reach the minimum read length, and not at all otherwise.  (A
  pair that a stage-2 overflow leaves flagged \<open>pairNotDone\<close> therefore has its stage-1
  search run again by the next invocation.)
\<close>
theorem phase1_calls_per_invocation:
  assumes "align cfg ops n me ms st = Some (fin, st')"
  shows "count_list (calls st') (AlignPhase1 i)
     = count_list (calls st) (AlignPhase1 i)
       + (if i < n \<and> pairNotDone (progressTracker st ! i) \<and> both_long cfg (progressTracker st ! i)
          then 1 else 0)"
proof -
  have one: "count_list (calls s1) (AlignPhase1 i)
     = count_list (calls st) (AlignPhase1 i)
       + (if i < n \<and> pairNotDone (progressTracker st ! i) \<and> both_long cfg (progressTracker st ! i)
          then 1 else 0)"
    if f: "align_first_stage cfg ops n st = Some (b1, s1)" for b1 s1
  proof -
    have "count_list (concat (map (\<lambda>j. snd (snd (first_stage_pair cfg ops j (progressTracker st ! j))))
              [0..<n])) (AlignPhase1 i)
          = (if i < n \<and> (pairNotDone (progressTracker st ! i) \<and> both_long cfg (progressTracker st ! i))
             then 1 else 0)"
      by (rule count_list_concat_upt) (auto simp add: first_pair_phase1_count)
    moreover have "count_list (map (\<lambda>j. AlignPhase2ToTargetLoc j clusterTargetLoc) xs) (AlignPhase1 i) = 0"
      for xs
      by (induction xs) simp_all
    ultimately show ?thesis
      using first_stage_calls [OF f] by simp
  qed
  have two: "count_list (calls s2) (AlignPhase1 i) = count_list (calls s1) (AlignPhase1 i)"
    if s: "align_second_stage cfg ops n me ms s1 = Some (b2, s2)" for s1 b2 s2
  proof -
    from second_stage_calls_pairs [OF s] obtain cs where cs: "calls s2 = calls s1 @ cs"
      "\<forall>c\<in>set cs. is_scoring_call c" by blast
    from cs(2) have "AlignPhase1 i \<notin> set cs" by auto
    from count_list_append_other [OF this] cs(1) show ?thesis by simp
  qed
  have three: "count_list (calls s3) (AlignPhase1 i) = count_list (calls s2) (AlignPhase1 i)"
    if t: "align_third_stage cfg ops n me ms s2 = Some (b3, s3)" for s2 b3 s3
  proof -
    from third_stage_calls [OF t] obtain cs where cs: "calls s3 = calls s2 @ cs"
      "\<forall>c\<in>set cs. \<exists>j r. c = SingleAlignRead j r \<and> j < n \<and> singleNotDone (progressTracker s2 ! j)"
      by blast
    from cs(2) have "AlignPhase1 i \<notin> set cs" by auto
    from count_list_append_other [OF this] cs(1) show ?thesis by simp
  qed
  from assms show ?thesis
  proof (cases rule: align_cases)
    case stage1
    from one [OF stage1(1)] show ?thesis .
  next
    case (stage2 s1)
    from one [OF stage2(1)] two [OF stage2(2)] show ?thesis by simp
  next
    case (stage3 s1 s2)
    from one [OF stage3(1)] two [OF stage3(2)] three [OF stage3(3)] show ?thesis by simp
  qed
qed

theorem phase1_calls_per_invocation_witness:
  "align (cfg30 False) scripted_engines 1 0 10 overflow_barcode
     = Some (False, snd (the (align (cfg30 False) scripted_engines 1 0 10 overflow_barcode)))
   \<and> count_list (calls (snd (the (align (cfg30 False) scripted_engines 1 0 10 overflow_barcode))))
        (AlignPhase1 0) = 1"
proof -
  define s where "s = snd (the (align (cfg30 False) scripted_engines 1 0 10 overflow_barcode))"
  have a: "align (cfg30 False) scripted_engines 1 0 10 overflow_barcode = Some (False, s)"
    unfolding s_def by (rule run_result) (simp add: run_defs overflow_barcode_def)
  from phase1_calls_per_invocation [OF a, of 0]
  have "count_list (calls s) (AlignPhase1 0) = 1"
    by (simp add: overflow_barcode_def barcode_def fresh_tracker_def both_long_def
        read_of_length_def getDataLength_def cfg30_def)
  with a show ?thesis unfolding s_def by simp
qed

text \<open>
  Counterexample to claim C1 as stated: the first invocation on \<open>overflow_barcode\<close> ends with a
  stage-2 overflow (count 3 for capacity 2) after one call of \<open>align_phase_1\<close>; the
  retry with the buffer enlarged calls \<open>align_phase_1\<close> for the same pair a second time.
\<close>
theorem stage1_repeated_after_overflow:
  "fst (the overflow_first_call) = False
   \<and> nSecondaryResults (progressTracker (snd (the overflow_first_call)) ! 0) = 3
   \<and> count_list (calls (snd (the overflow_first_call))) (AlignPhase1 0) = 1
   \<and> fst (the overflow_retry) = True
   \<and> count_list (calls (snd (the overflow_retry))) (AlignPhase1 0) = 2"
  by (simp add: overflow_first_call_def overflow_retry_def enlarge_paired_buffer_def
      run_defs overflow_barcode_def)

lemma second_pair_scored:
  "pairNotDone t \<Longrightarrow> \<not> pairNotDone (fst (snd (second_stage_pair cfg ops me ms i t))) \<Longrightarrow>
     AlignPhase4 i \<in> set (snd (snd (second_stage_pair cfg ops me ms i t)))"
  by (simp add: second_stage_pair_def Let_def split: prod.splits if_splits)

lemma second_pair_overflow_frame:
  assumes "pairNotDone (fst (snd (second_stage_pair cfg ops me ms i t)))"
  shows "(let t' = fst (snd (second_stage_pair cfg ops me ms i t)) in
     pairNotDone t \<and> phase3_overflow ops me ms t \<and> singleNotDone t' = singleNotDone t
     \<and> pairedReads t' = pairedReads t \<and> result0 t' = result0 t
     \<and> nextLoci t' = nextLoci t \<and> next_tracker t' = next_tracker t
     \<and> secondaryResultBufferSize t' = secondaryResultBufferSize t
     \<and> singleSecondaryBufferSize t' = singleSecondaryBufferSize t
     \<and> singleEndSecondaryResults t' = singleEndSecondaryResults t
     \<and> nSecondaryResults t' = secondaryResultBufferSize t + 1
     \<and> nSingleEndSecondaryResultsForFirstRead t' = 0
     \<and> nSingleEndSecondaryResultsForSecondRead t' = 0)"
proof -
  from second_pair_still_active [OF assms]
  have p: "pairNotDone t" and ov: "phase3_overflow ops me ms t" by simp_all
  show ?thesis
    by (simp add: second_pair_overflow [OF p ov] p ov split: prod.splits)
qed

text \<open>
  Claim C4, as amended.  No stage ever sets a stage flag: a \<open>pairNotDone\<close> or
  \<open>singleNotDone\<close> flag that is clear before a stage is clear after it, so a pair only
  moves forward and a cleared flag stays cleared.  A pair whose \<open>pairNotDone\<close> flag is
  cleared by stage 2 has had its paired scoring completed (\<open>align_phase_4\<close> was called for
  it), and stage 3 leaves \<open>pairNotDone\<close> as it is.  (Stage 1, however, may clear
  \<open>pairNotDone\<close> and leave \<open>singleNotDone\<close> set, without any paired scoring.)
\<close>
theorem stage_flags_only_clear:
  "(align_first_stage cfg ops n st = Some (b, st') \<longrightarrow>
      (pairNotDone (progressTracker st' ! i) \<longrightarrow> pairNotDone (progressTracker st ! i))
      \<and> (singleNotDone (progressTracker st' ! i) \<longrightarrow> singleNotDone (progressTracker st ! i)))
   \<and> (align_second_stage cfg ops n me ms st = Some (b, st') \<longrightarrow>
      (pairNotDone (progressTracker st' ! i) \<longrightarrow> pairNotDone (progressTracker st ! i))
      \<and> (singleNotDone (progressTracker st' ! i) \<longrightarrow> singleNotDone (progressTracker st ! i))
      \<and> (pairNotDone (progressTracker st ! i) \<and> \<not> pairNotDone (progressTracker st' ! i)
           \<longrightarrow> AlignPhase4 i \<in> set (calls st')))
   \<and> (align_third_stage cfg ops n me ms st = Some (b, st') \<longrightarrow>
      pairNotDone (progressTracker st' ! i) = pairNotDone (progressTracker st ! i)
      \<and> (singleNotDone (progressTracker st' ! i) \<longrightarrow> singleNotDone (progressTracker st ! i)))"
proof -
  have scored: "AlignPhase4 i \<in> set (calls st')"
    if s: "align_second_stage cfg ops n me ms st = Some (b, st')"
      and p: "pairNotDone (progressTracker st ! i)" "\<not> pairNotDone (progressTracker st' ! i)"
  proof -
    have i: "i < n"
    proof (rule ccontr)
      assume "\<not> i < n"
      with second_stage_later [OF s, of i] p show False by simp
    qed
    from second_stage_done [OF s i] p
    have "AlignPhase4 i \<in> set (snd (snd (second_stage_pair cfg ops me ms i (progressTracker st ! i))))"
      by (simp add: second_pair_scored)
    with i show ?thesis
      by (auto simp add: second_stage_calls [OF s])
  qed
  show ?thesis
    using first_stage_flags [of cfg ops n st b st' i]
      second_stage_flags [of cfg ops n me ms st b st' i]
      third_stage_flags [of cfg ops n me ms st b st' i] scored
    by blast
qed

theorem stage_flags_only_clear_witness:
  "pairNotDone (progressTracker (snd (the (align_first_stage (cfg30 False) scripted_engines 1 overflow_barcode))) ! 0)
   \<and> pairNotDone (progressTracker overflow_barcode ! 0)
   \<and> \<not> pairNotDone (progressTracker (snd (the (align_second_stage (cfg30 False) scripted_engines 1 0 10 chimera_barcode))) ! 0)
   \<and> AlignPhase4 0 \<in> set (calls (snd (the (align_second_stage (cfg30 False) scripted_engines 1 0 10 chimera_barcode))))
   \<and> \<not> singleNotDone (progressTracker (snd (the (align_third_stage (cfg30 False) scripted_engines 1 0 10 overflow_barcode))) ! 0)
   \<and> pairNotDone (progressTracker (snd (the (align_third_stage (cfg30 False) scripted_engines 1 0 10 overflow_barcode))) ! 0)"
proof -
  let ?C = "cfg30 False" and ?E = scripted_engines
  define s1 where "s1 = snd (the (align_first_stage ?C ?E 1 overflow_barcode))"
  define s2 where "s2 = snd (the (align_second_stage ?C ?E 1 0 10 chimera_barcode))"
  define s3 where "s3 = snd (the (align_third_stage ?C ?E 1 0 10 overflow_barcode))"
  have f: "align_first_stage ?C ?E 1 overflow_barcode = Some (False, s1)"
    unfolding s1_def by (rule run_result) (simp add: run_defs overflow_barcode_def)
  have s: "align_second_stage ?C ?E 1 0 10 chimera_barcode = Some (True, s2)"
    unfolding s2_def by (rule run_result) (simp add: run_defs chimera_barcode_def)
  have t: "align_third_stage ?C ?E 1 0 10 overflow_barcode = Some (True, s3)"
    unfolding s3_def by (rule run_result) (simp add: run_defs overflow_barcode_def)
  have p1: "pairNotDone (progressTracker s1 ! 0)"
    unfolding s1_def by (simp add: run_defs overflow_barcode_def)
  have p2: "pairNotDone (progressTracker chimera_barcode ! 0)"
    "\<not> pairNotDone (progressTracker s2 ! 0)"
    unfolding s2_def by (simp_all add: run_defs chimera_barcode_def)
  have p3: "pairNotDone (progressTracker overflow_barcode ! 0)"
    "\<not> singleNotDone (progressTracker s3 ! 0)"
    unfolding s3_def by (simp_all add: run_defs overflow_barcode_def)
  from stage_flags_only_clear [of ?C ?E 1 overflow_barcode False s1 0] f p1
  have "pairNotDone (progressTracker overflow_barcode ! 0)" by blast
  moreover from stage_flags_only_clear [of ?C ?E 1 chimera_barcode True s2 0 0 10] s p2
  have "AlignPhase4 0 \<in> set (calls s2)" by blast
  moreover from stage_flags_only_clear [of ?C ?E 1 overflow_barcode True s3 0 0 10] t p3
  have "pairNotDone (progressTracker s3 ! 0)" by blast
  ultimately show ?thesis
    using p1 p2 p3 unfolding s1_def s2_def s3_def by simp
qed

text \<open>
  Counterexample to claim C4 as stated: when phase 1 reports the paired search over, stage 1 takes the
  pair from \<open>pairNotDone\<close> to the single-end fallback (\<open>pairNotDone\<close> clear,
  \<open>singleNotDone\<close> set) and the invocation aligns both mates singly, with no call of
  \<open>align_phase_3\<close> or \<open>align_phase_4\<close> for the pair.
\<close>
theorem fallback_without_scoring:
  "pairNotDone (progressTracker stopped_barcode ! 0)
   \<and> \<not> pairNotDone (progressTracker
        (snd (the (align_first_stage (cfg30 False) scripted_engines 1 stopped_barcode))) ! 0)
   \<and> singleNotDone (progressTracker
        (snd (the (align_first_stage (cfg30 False) scripted_engines 1 stopped_barcode))) ! 0)
   \<and> filter is_scoring_call
        (calls (snd (the (align_first_stage (cfg30 False) scripted_engines 1 stopped_barcode)))) = []
   \<and> calls (snd (the (align (cfg30 False) scripted_engines 1 0 10 stopped_barcode)))
        = [AlignPhase1 0, SingleAlignRead 0 0, SingleAlignRead 0 1]"
  by (simp add: run_defs stopped_barcode_def)

text \<open>
  Claim C8, as amended.  With forced mate-spacing configured, every pair that stage 2
  scores without overflow is finalised as it is: both stage flags are cleared,
  \<open>alignedAsPair\<close> is set and \<open>fromAlignTogether\<close> holds exactly when mate 0 is found;
  the following stage 3 leaves the pair untouched and makes no engine call for it.
\<close>
theorem forced_spacing_stage2_resolves:
  assumes "forceSpacing cfg"
    and "align_second_stage cfg ops n me ms st = Some (b, s2)"
    and "i < n"
    and "pairNotDone (progressTracker st ! i)"
    and "\<not> phase3_overflow ops me ms (progressTracker st ! i)"
    and "align_third_stage cfg ops n me ms s2 = Some (b3, s3)"
  shows "\<not> pairNotDone (progressTracker s2 ! i) \<and> \<not> singleNotDone (progressTracker s2 ! i)
     \<and> alignedAsPair (result0 (progressTracker s2 ! i))
     \<and> fromAlignTogether (result0 (progressTracker s2 ! i))
          = (fst (status (result0 (progressTracker s2 ! i))) \<noteq> NotFound)
     \<and> progressTracker s3 ! i = progressTracker s2 ! i
     \<and> calls_for i (calls s3) = calls_for i (calls s2)"
proof -
  from second_pair_forced [OF assms(1) assms(4) assms(5), of i] second_stage_done [OF assms(2) assms(3)]
  have two: "\<not> pairNotDone (progressTracker s2 ! i) \<and> \<not> singleNotDone (progressTracker s2 ! i)
     \<and> alignedAsPair (result0 (progressTracker s2 ! i))
     \<and> fromAlignTogether (result0 (progressTracker s2 ! i))
          = (fst (status (result0 (progressTracker s2 ! i))) \<noteq> NotFound)"
    by (simp add: Let_def)
  then have idle: "\<not> singleNotDone (progressTracker s2 ! i)" by simp
  from third_stage_calls [OF assms(6)] obtain cs where cs: "calls s3 = calls s2 @ cs"
    "\<forall>c\<in>set cs. \<exists>j r. c = SingleAlignRead j r \<and> j < n \<and> singleNotDone (progressTracker s2 ! j)"
    by blast
  from cs(2) idle have "\<forall>c\<in>set cs. call_pair c \<noteq> i" by auto
  from calls_for_append_other [OF this] cs(1)
  have "calls_for i (calls s3) = calls_for i (calls s2)" by simp
  with two third_stage_resolved [OF assms(6) idle] show ?thesis by simp
qed

theorem forced_spacing_stage2_resolves_witness:
  "forceSpacing (cfg30 True)
   \<and> \<not> singleNotDone (progressTracker
        (snd (the (align_second_stage (cfg30 True) scripted_engines 1 0 10 chimera_barcode))) ! 0)
   \<and> fromAlignTogether (result0 (progressTracker
        (snd (the (align_second_stage (cfg30 True) scripted_engines 1 0 10 chimera_barcode))) ! 0))
   \<and> calls (snd (the (align_third_stage (cfg30 True) scripted_engines 1 0 10
        (snd (the (align_second_stage (cfg30 True) scripted_engines 1 0 10 chimera_barcode))))))
      = [AlignPhase3 0, AlignPhase4 0]"
proof -
  let ?C = "cfg30 True" and ?E = scripted_engines
  define s2 where "s2 = snd (the (align_second_stage ?C ?E 1 0 10 chimera_barcode))"
  define s3 where "s3 = snd (the (align_third_stage ?C ?E 1 0 10 s2))"
  have s: "align_second_stage ?C ?E 1 0 10 chimera_barcode = Some (True, s2)"
    unfolding s2_def by (rule run_result) (simp add: run_defs chimera_barcode_def)
  have t: "align_third_stage ?C ?E 1 0 10 s2 = Some (True, s3)"
    unfolding s3_def s2_def by (rule run_result) (simp add: run_defs chimera_barcode_def)
  have h: "forceSpacing ?C" "(0::nat) < 1" "pairNotDone (progressTracker chimera_barcode ! 0)"
    "\<not> phase3_overflow ?E 0 10 (progressTracker chimera_barcode ! 0)"
    by (simp_all add: cfg30_def chimera_barcode_def barcode_def fresh_tracker_def
        phase3_overflow_def scripted_engines_def)
  have found: "fst (status (result0 (progressTracker s2 ! 0))) = Found"
    "calls s2 = [AlignPhase3 0, AlignPhase4 0]"
    unfolding s2_def by (simp_all add: run_defs chimera_barcode_def)
  have same: "calls s3 = calls s2"
    unfolding s3_def s2_def by (simp add: run_defs chimera_barcode_def)
  from forced_spacing_stage2_resolves [OF h(1) s h(2) h(3) h(4) t] found same h(1)
  show ?thesis unfolding s3_def s2_def by simp
qed

text \<open>
  Counterexample to claim C8 as stated: with forced mate-spacing configured, a pair for which phase 1
  reports the paired search over enters the single-end fallback after stage 1, and the
  invocation calls the single-end engine for both its mates.
\<close>
theorem forced_spacing_still_falls_back:
  "forceSpacing (cfg30 True)
   \<and> \<not> pairNotDone (progressTracker
        (snd (the (align_first_stage (cfg30 True) scripted_engines 1 stopped_barcode))) ! 0)
   \<and> singleNotDone (progressTracker
        (snd (the (align_first_stage (cfg30 True) scripted_engines 1 stopped_barcode))) ! 0)
   \<and> fst (the (align (cfg30 True) scripted_engines 1 0 10 stopped_barcode)) = True
   \<and> calls (snd (the (align (cfg30 True) scripted_engines 1 0 10 stopped_barcode)))
        = [AlignPhase1 0, SingleAlignRead 0 0, SingleAlignRead 0 1]"
  by (simp add: run_defs stopped_barcode_def)

text \<open>
  Claim C2, as amended.  A pair that stage 2 leaves flagged \<open>pairNotDone\<close> (its paired
  buffer overflowed: \<open>align_phase_3\<close> reported so) makes stage 2 report unfinished and
  keeps its stage flags, reads, primary result, cursor, buffer capacities and single-end
  buffer; its three
  secondary-result counts are overwritten: \<open>nSecondaryResults\<close> is the capacity plus one
  and both single-end counts are 0.  A pair that stage 3 leaves flagged
  \<open>singleNotDone\<close> (a single-end buffer overflowed) makes stage 3 report unfinished and
  keeps its stage flags, reads, paired engine, paired secondary buffer, cursor and buffer
  capacities; its three counts are overwritten as well: \<open>nSecondaryResults\<close> is reset to
  0, the first-read count is the single-end capacity plus one and the second-read count
  is 0.
\<close>
theorem overflow_frame:
  fixes st :: "('e, 'a, 'l) ClusterAligner"
  shows "(align_second_stage cfg ops n me ms st = Some (b, st') \<and> i < n
      \<and> pairNotDone (progressTracker st' ! i) \<longrightarrow>
      \<not> b
      \<and> pairNotDone (progressTracker st ! i)
      \<and> phase3_overflow ops me ms (progressTracker st ! i)
      \<and> singleNotDone (progressTracker st' ! i) = singleNotDone (progressTracker st ! i)
      \<and> pairedReads (progressTracker st' ! i) = pairedReads (progressTracker st ! i)
      \<and> result0 (progressTracker st' ! i) = result0 (progressTracker st ! i)
      \<and> nextLoci (progressTracker st' ! i) = nextLoci (progressTracker st ! i)
      \<and> next_tracker (progressTracker st' ! i) = next_tracker (progressTracker st ! i)
      \<and> secondaryResultBufferSize (progressTracker st' ! i)
           = secondaryResultBufferSize (progressTracker st ! i)
      \<and> singleSecondaryBufferSize (progressTracker st' ! i)
           = singleSecondaryBufferSize (progressTracker st ! i)
      \<and> singleEndSecondaryResults (progressTracker st' ! i)
           = singleEndSecondaryResults (progressTracker st ! i)
      \<and> nSecondaryResults (progressTracker st' ! i)
           = secondaryResultBufferSize (progressTracker st ! i) + 1
      \<and> nSingleEndSecondaryResultsForFirstRead (progressTracker st' ! i) = 0
      \<and> nSingleEndSecondaryResultsForSecondRead (progressTracker st' ! i) = 0)
   \<and> (align_third_stage cfg ops n me ms st = Some (b, st') \<and> i < n
      \<and> singleNotDone (progressTracker st' ! i) \<longrightarrow>
      \<not> b
      \<and> singleNotDone (progressTracker st ! i)
      \<and> pairNotDone (progressTracker st' ! i) = pairNotDone (progressTracker st ! i)
      \<and> pairedReads (progressTracker st' ! i) = pairedReads (progressTracker st ! i)
      \<and> aligner (progressTracker st' ! i) = aligner (progressTracker st ! i)
      \<and> resultSecondary (progressTracker st' ! i) = resultSecondary (progressTracker st ! i)
      \<and> popularSeedsSkipped (progressTracker st' ! i) = popularSeedsSkipped (progressTracker st ! i)
      \<and> nextLoci (progressTracker st' ! i) = nextLoci (progressTracker st ! i)
      \<and> next_tracker (progressTracker st' ! i) = next_tracker (progressTracker st ! i)
      \<and> secondaryResultBufferSize (progressTracker st' ! i)
           = secondaryResultBufferSize (progressTracker st ! i)
      \<and> singleSecondaryBufferSize (progressTracker st' ! i)
           = singleSecondaryBufferSize (progressTracker st ! i)
      \<and> nSecondaryResults (progressTracker st' ! i) = 0
      \<and> nSingleEndSecondaryResultsForFirstRead (progressTracker st' ! i)
           = singleSecondaryBufferSize (progressTracker st ! i) + 1
      \<and> nSingleEndSecondaryResultsForSecondRead (progressTracker st' ! i) = 0)"
proof (rule conjI; rule impI)
  assume "align_second_stage cfg ops n me ms st = Some (b, st') \<and> i < n
      \<and> pairNotDone (progressTracker st' ! i)"
  then have s: "align_second_stage cfg ops n me ms st = Some (b, st')" and i: "i < n"
    and p: "pairNotDone (progressTracker st' ! i)" by simp_all
  from p second_stage_done [OF s i]
  have "pairNotDone (fst (snd (second_stage_pair cfg ops me ms i (progressTracker st ! i))))"
    by simp
  from second_pair_overflow_frame [OF this] second_stage_done [OF s i] second_stage_flag [OF s] i p
  show "\<not> b
      \<and> pairNotDone (progressTracker st ! i)
      \<and> phase3_overflow ops me ms (progressTracker st ! i)
      \<and> singleNotDone (progressTracker st' ! i) = singleNotDone (progressTracker st ! i)
      \<and> pairedReads (progressTracker st' ! i) = pairedReads (progressTracker st ! i)
      \<and> result0 (progressTracker st' ! i) = result0 (progressTracker st ! i)
      \<and> nextLoci (progressTracker st' ! i) = nextLoci (progressTracker st ! i)
      \<and> next_tracker (progressTracker st' ! i) = next_tracker (progressTracker st ! i)
      \<and> secondaryResultBufferSize (progressTracker st' ! i)
           = secondaryResultBufferSize (progressTracker st ! i)
      \<and> singleSecondaryBufferSize (progressTracker st' ! i)
           = singleSecondaryBufferSize (progressTracker st ! i)
      \<and> singleEndSecondaryResults (progressTracker st' ! i)
           = singleEndSecondaryResults (progressTracker st ! i)
      \<and> nSecondaryResults (progressTracker st' ! i)
           = secondaryResultBufferSize (progressTracker st ! i) + 1
      \<and> nSingleEndSecondaryResultsForFirstRead (progressTracker st' ! i) = 0
      \<and> nSingleEndSecondaryResultsForSecondRead (progressTracker st' ! i) = 0"
    by (auto simp add: Let_def)
next
  assume "align_third_stage cfg ops n me ms st = Some (b, st') \<and> i < n
      \<and> singleNotDone (progressTracker st' ! i)"
  then have t: "align_third_stage cfg ops n me ms st = Some (b, st')" and i: "i < n"
    and p: "singleNotDone (progressTracker st' ! i)" by simp_all
  define Q :: "('e, 'l) TenXProgressTracker \<Rightarrow> ('e, 'l) TenXProgressTracker \<Rightarrow> bool" where
    "Q = (\<lambda>t t'. singleNotDone t' \<longrightarrow>
     pairNotDone t' = pairNotDone t \<and> singleNotDone t' = singleNotDone t
     \<and> pairedReads t' = pairedReads t \<and> aligner t' = aligner t
     \<and> resultSecondary t' = resultSecondary t \<and> popularSeedsSkipped t' = popularSeedsSkipped t
     \<and> nextLoci t' = nextLoci t \<and> next_tracker t' = next_tracker t
     \<and> secondaryResultBufferSize t' = secondaryResultBufferSize t
     \<and> singleSecondaryBufferSize t' = singleSecondaryBufferSize t
     \<and> nSecondaryResults t' = 0
     \<and> nSingleEndSecondaryResultsForFirstRead t' = singleSecondaryBufferSize t + 1
     \<and> nSingleEndSecondaryResultsForSecondRead t' = 0)"
  have "Q t (fst (snd (snd (third_stage_pair cfg ops me ms i sa t))))" for sa t
    unfolding Q_def using third_pair_overflow [of cfg ops me ms i sa t]
    by (simp add: Let_def)
  from third_stage_rel [of cfg ops n me ms st b st' Q i, OF t this i]
  have "Q (progressTracker st ! i) (progressTracker st' ! i)" .
  with p third_stage_flag [OF t] i
  show "\<not> b
      \<and> singleNotDone (progressTracker st ! i)
      \<and> pairNotDone (progressTracker st' ! i) = pairNotDone (progressTracker st ! i)
      \<and> pairedReads (progressTracker st' ! i) = pairedReads (progressTracker st ! i)
      \<and> aligner (progressTracker st' ! i) = aligner (progressTracker st ! i)
      \<and> resultSecondary (progressTracker st' ! i) = resultSecondary (progressTracker st ! i)
      \<and> popularSeedsSkipped (progressTracker st' ! i) = popularSeedsSkipped (progressTracker st ! i)
      \<and> nextLoci (progressTracker st' ! i) = nextLoci (progressTracker st ! i)
      \<and> next_tracker (progressTracker st' ! i) = next_tracker (progressTracker st ! i)
      \<and> secondaryResultBufferSize (progressTracker st' ! i)
           = secondaryResultBufferSize (progressTracker st ! i)
      \<and> singleSecondaryBufferSize (progressTracker st' ! i)
           = singleSecondaryBufferSize (progressTracker st ! i)
      \<and> nSecondaryResults (progressTracker st' ! i) = 0
      \<and> nSingleEndSecondaryResultsForFirstRead (progressTracker st' ! i)
           = singleSecondaryBufferSize (progressTracker st ! i) + 1
      \<and> nSingleEndSecondaryResultsForSecondRead (progressTracker st' ! i) = 0"
    unfolding Q_def by auto
qed

theorem overflow_frame_witness:
  "align_second_stage (cfg30 False) scripted_engines 1 0 10 overflow_barcode
     = Some (False, snd (the (align_second_stage (cfg30 False) scripted_engines 1 0 10 overflow_barcode)))
   \<and> nSecondaryResults (progressTracker
        (snd (the (align_second_stage (cfg30 False) scripted_engines 1 0 10 overflow_barcode))) ! 0) = 3
   \<and> result0 (progressTracker
        (snd (the (align_second_stage (cfg30 False) scripted_engines 1 0 10 overflow_barcode))) ! 0)
      = fresh_result
   \<and> align_third_stage (cfg30 False) scripted_engines 1 0 10 chimera_scored
     = Some (False, snd (the (align_third_stage (cfg30 False) scripted_engines 1 0 10 chimera_scored)))
   \<and> nSingleEndSecondaryResultsForFirstRead (progressTracker
        (snd (the (align_third_stage (cfg30 False) scripted_engines 1 0 10 chimera_scored))) ! 0) = 3
   \<and> nSecondaryResults (progressTracker
        (snd (the (align_third_stage (cfg30 False) scripted_engines 1 0 10 chimera_scored))) ! 0) = 0"
proof -
  let ?C = "cfg30 False" and ?E = scripted_engines
  define s2 where "s2 = snd (the (align_second_stage ?C ?E 1 0 10 overflow_barcode))"
  define s3 where "s3 = snd (the (align_third_stage ?C ?E 1 0 10 chimera_scored))"
  have s: "align_second_stage ?C ?E 1 0 10 overflow_barcode = Some (False, s2)"
    unfolding s2_def by (rule run_result) (simp add: run_defs overflow_barcode_def)
  have t: "align_third_stage ?C ?E 1 0 10 chimera_scored = Some (False, s3)"
    unfolding s3_def by (rule run_result) (simp add: run_defs chimera_scored_def chimera_barcode_def)
  have p2: "pairNotDone (progressTracker s2 ! 0)"
    unfolding s2_def by (simp add: run_defs overflow_barcode_def)
  have p3: "singleNotDone (progressTracker s3 ! 0)"
    unfolding s3_def by (simp add: run_defs chimera_scored_def chimera_barcode_def)
  have before: "secondaryResultBufferSize (progressTracker overflow_barcode ! 0) = 2"
    "result0 (progressTracker overflow_barcode ! 0) = fresh_result"
    "singleSecondaryBufferSize (progressTracker chimera_scored ! 0) = 2"
    by (simp_all add: run_defs overflow_barcode_def chimera_scored_def chimera_barcode_def)
  from overflow_frame [of ?C ?E 1 0 10 overflow_barcode False s2 0] s p2 before
  have "nSecondaryResults (progressTracker s2 ! 0) = 3
      \<and> result0 (progressTracker s2 ! 0) = fresh_result"
    by simp
  moreover
  from overflow_frame [of ?C ?E 1 0 10 chimera_scored False s3 0] t p3 before
  have "nSingleEndSecondaryResultsForFirstRead (progressTracker s3 ! 0) = 3
      \<and> nSecondaryResults (progressTracker s3 ! 0) = 0"
    by simp
  ultimately show ?thesis
    using s t unfolding s2_def [symmetric] s3_def [symmetric] by simp
qed

text \<open>
  Counterexample to claim C2 as stated: in the invocation on \<open>chimera_barcode\<close> stage 2 leaves 2
  paired secondary results for the pair; stage 3 then overflows the single-end buffer,
  reports unfinished, and the pair's \<open>nSecondaryResults\<close> is 0.
\<close>
theorem stage3_overflow_resets_paired_count:
  "align (cfg30 False) scripted_engines 1 0 10 chimera_barcode
     = align_third_stage (cfg30 False) scripted_engines 1 0 10 chimera_scored
   \<and> nSecondaryResults (progressTracker chimera_scored ! 0) = 2
   \<and> singleNotDone (progressTracker chimera_scored ! 0)
   \<and> fst (the (align_third_stage (cfg30 False) scripted_engines 1 0 10 chimera_scored)) = False
   \<and> singleNotDone (progressTracker
        (snd (the (align_third_stage (cfg30 False) scripted_engines 1 0 10 chimera_scored))) ! 0)
   \<and> nSecondaryResults (progressTracker
        (snd (the (align_third_stage (cfg30 False) scripted_engines 1 0 10 chimera_scored))) ! 0) = 0"
  by (simp add: run_defs chimera_scored_def chimera_barcode_def)

text \<open>
  Claim C3 (the code departs from it).  A pair in single-end fallback whose mates both
  reach the minimum read length, with a single-end engine that reports 1 secondary result
  for mate 0 and 2 for mate 1, none overflowing: after the invocation
  \<open>nSingleEndSecondaryResultsForFirstRead\<close> holds 2, the count of mate 1, and
  \<open>nSingleEndSecondaryResultsForSecondRead\<close> holds 0.
\<close>
theorem single_counts_share_one_counter:
  "fst (the (align (cfg30 False) scripted_engines 1 0 10 two_counts_barcode)) = True
   \<and> calls (snd (the (align (cfg30 False) scripted_engines 1 0 10 two_counts_barcode)))
      = [AlignPhase1 0, AlignPhase2Init 0, AlignPhase2GetLoci 0, AlignPhase2ToTargetLoc 0 0,
         AlignPhase3 0, AlignPhase4 0, SingleAlignRead 0 0, SingleAlignRead 0 1]
   \<and> singleNotDone (progressTracker
        (snd (the (align (cfg30 False) scripted_engines 1 0 10 two_counts_barcode))) ! 0) = False
   \<and> nSingleEndSecondaryResultsForFirstRead (progressTracker
        (snd (the (align (cfg30 False) scripted_engines 1 0 10 two_counts_barcode))) ! 0) = 2
   \<and> nSingleEndSecondaryResultsForSecondRead (progressTracker
        (snd (the (align (cfg30 False) scripted_engines 1 0 10 two_counts_barcode))) ! 0) = 0"
  by (simp add: run_defs two_counts_barcode_def)





end
